theory Spec2Isabelle
  imports Complex_Main
begin

section \<open>Texts\<close>

text \<open>
  A Python \<open>str\<close> is a sequence of Unicode code points, so a text is a list of code
  points. Floats are modelled as exact reals. Identifiers that the source writes as ASCII
  literals and compares by equality (reviewer roles, issue tags) are HOL strings.
\<close>

type_synonym pystr = "nat list"

definition uni :: "string \<Rightarrow> pystr" where
  "uni s = map of_char s"

text \<open>
  \<open>str.split()\<close> without argument cuts at runs of white space and returns no empty
  word. The white-space code points are the ones of \<open>str.isspace\<close>.
\<close>

definition is_space :: "nat \<Rightarrow> bool" where
  "is_space c = ((9 \<le> c \<and> c \<le> 13) \<or> (28 \<le> c \<and> c \<le> 32) \<or> c = 133 \<or> c = 160
     \<or> c = 5760 \<or> (8192 \<le> c \<and> c \<le> 8202) \<or> c = 8232 \<or> c = 8233 \<or> c = 8239
     \<or> c = 8287 \<or> c = 12288)"

fun split_acc :: "pystr \<Rightarrow> pystr \<Rightarrow> pystr list" where
  "split_acc w [] = (if w = [] then [] else [w])"
| "split_acc w (c # cs) =
     (if is_space c then (if w = [] then split_acc [] cs else w # split_acc [] cs)
      else split_acc (w @ [c]) cs)"

definition py_split :: "pystr \<Rightarrow> pystr list" where
  "py_split t = split_acc [] t"

text \<open>
  \<open>str.lower()\<close> follows the Unicode case tables, which are no part of the repository:
  every function that lowers a text takes the lowering function \<open>lw\<close> as a parameter, and
  the theorems hold for every \<open>lw\<close>. \<open>ascii_lower\<close> agrees with \<open>str.lower\<close> on ASCII
  texts and is the instance used on concrete inputs.
\<close>

definition ascii_lower :: "pystr \<Rightarrow> pystr" where
  "ascii_lower t = map (\<lambda>c. if 65 \<le> c \<and> c \<le> 90 then c + 32 else c) t"

text \<open>\<open>needle in haystack\<close> on strings: a contiguous occurrence.\<close>

fun is_prefix :: "'a list \<Rightarrow> 'a list \<Rightarrow> bool" where
  "is_prefix [] ys = True"
| "is_prefix (x # xs) [] = False"
| "is_prefix (x # xs) (y # ys) = (x = y \<and> is_prefix xs ys)"

fun str_in :: "'a list \<Rightarrow> 'a list \<Rightarrow> bool" where
  "str_in needle [] = (needle = [])"
| "str_in needle (y # ys) = (is_prefix needle (y # ys) \<or> str_in needle ys)"

subsection \<open>Token-overlap similarity\<close>

text \<open>
  \<open>RAGVerifier._compute_similarity\<close> (idea2story_pipeline.py) and
  \<open>RecallSystem._compute_text_similarity\<close> (recall_system.py) have the same body: the
  Jaccard overlap of the sets of lowered, white-space separated words.
\<close>

definition compute_similarity :: "(pystr \<Rightarrow> pystr) \<Rightarrow> pystr \<Rightarrow> pystr \<Rightarrow> real" where
  "compute_similarity lw text1 text2 =
     (let tokens1 = set (py_split (lw text1));
          tokens2 = set (py_split (lw text2))
      in if tokens1 = {} \<or> tokens2 = {} then 0
         else real (card (tokens1 \<inter> tokens2)) / real (card (tokens1 \<union> tokens2)))"

definition compute_text_similarity :: "(pystr \<Rightarrow> pystr) \<Rightarrow> pystr \<Rightarrow> pystr \<Rightarrow> real" where
  "compute_text_similarity lw text1 text2 = compute_similarity lw text1 text2"

text \<open>
  \<open>compute_similarity\<close> of simple_recall_demo.py: the Jaccard overlap of the sets of
  characters, blanks removed.
\<close>

definition compute_similarity_chars :: "(pystr \<Rightarrow> pystr) \<Rightarrow> pystr \<Rightarrow> pystr \<Rightarrow> real" where
  "compute_similarity_chars lw text1 text2 =
     (if text1 = [] \<or> text2 = [] then 0
      else let tokens1 = set (filter (\<lambda>c. c \<noteq> 32) (lw text1));
               tokens2 = set (filter (\<lambda>c. c \<noteq> 32) (lw text2))
           in if tokens1 = {} \<or> tokens2 = {} then 0
              else real (card (tokens1 \<inter> tokens2)) / real (card (tokens1 \<union> tokens2)))"

section \<open>Patterns and the pipeline configuration\<close>

text \<open>
  A recalled pattern is \<open>(pattern_id, pattern_info, score)\<close>. Of the \<open>pattern_info\<close>
  dictionary the pipeline reads \<open>name\<close>, \<open>cluster_size\<close>, the \<open>method_story\<close> of each
  skeleton example and the \<open>name\<close> of each top trick. A missing \<open>cluster_size\<close> is
  \<open>None\<close> (each reader has its own default); a missing text reads as the empty text, as
  \<open>.get(key, '')\<close> does.
\<close>

type_synonym pattern_id = pystr

record pattern_info =
  name :: pystr
  cluster_size :: "int option"
  skeleton_examples :: "pystr list"
  top_tricks :: "pystr list"

type_synonym recalled = "(pattern_id \<times> pattern_info \<times> real) list"

definition empty_info :: pattern_info where
  "empty_info = \<lparr>name = [], cluster_size = None, skeleton_examples = [], top_tricks = []\<rparr>"

text \<open>\<open>pinfo.get('cluster_size', d)\<close>\<close>

definition get_cluster_size :: "pattern_info \<Rightarrow> int \<Rightarrow> int" where
  "get_cluster_size pinfo d = (case cluster_size pinfo of None \<Rightarrow> d | Some c \<Rightarrow> c)"

text \<open>The constants of \<open>PipelineConfig\<close>.\<close>

definition INNOVATIVE_CLUSTER_SIZE_THRESHOLD :: int where
  "INNOVATIVE_CLUSTER_SIZE_THRESHOLD = 10"

definition PASS_SCORE :: real where
  "PASS_SCORE = 7"


definition COLLISION_THRESHOLD :: real where
  "COLLISION_THRESHOLD = 3 / 4"

definition TAIL_INJECTION_RANK_RANGE :: "nat \<times> nat" where
  "TAIL_INJECTION_RANK_RANGE = (4, 9)"

definition HEAD_INJECTION_RANK_RANGE :: "nat \<times> nat" where
  "HEAD_INJECTION_RANK_RANGE = (0, 2)"

definition HEAD_INJECTION_CLUSTER_THRESHOLD :: int where
  "HEAD_INJECTION_CLUSTER_THRESHOLD = 15"

section \<open>Phase 1: PatternSelector\<close>

datatype slot = Conservative | Innovative | Cross_Domain

definition select_conservative :: "recalled \<Rightarrow> (pattern_id \<times> pattern_info) option" where
  "select_conservative recalled_patterns =
     (case recalled_patterns of
        [] \<Rightarrow> None
      | (pattern_id, pinfo, sc) # _ \<Rightarrow> Some (pattern_id, pinfo))"

definition select_innovative ::
  "recalled \<Rightarrow> pattern_id list \<Rightarrow> (pattern_id \<times> pattern_info) option" where
  "select_innovative recalled_patterns exclude =
     (let candidates =
            filter (\<lambda>(pid, pinfo, sc). pid \<notin> set exclude \<and>
                      get_cluster_size pinfo 999 < INNOVATIVE_CLUSTER_SIZE_THRESHOLD)
              recalled_patterns;
          candidates =
            (if candidates = []
             then sort_key (\<lambda>(pid, pinfo, sc). get_cluster_size pinfo 999)
                    (filter (\<lambda>(pid, pinfo, sc). pid \<notin> set exclude) recalled_patterns)
             else candidates)
      in case candidates of
           [] \<Rightarrow> None
         | (pid, pinfo, sc) # _ \<Rightarrow> Some (pid, pinfo))"

text \<open>
  The exclusion list of \<open>_select_cross_domain\<close> holds \<open>None\<close> for an absent slot; no
  pattern id equals \<open>None\<close>.
\<close>

definition select_cross_domain ::
  "recalled \<Rightarrow> pattern_id option list \<Rightarrow> (pattern_id \<times> pattern_info) option" where
  "select_cross_domain recalled_patterns exclude =
     (let candidates =
            filter (\<lambda>(pid, pinfo, sc). Some pid \<notin> set exclude) recalled_patterns
      in case candidates of
           [] \<Rightarrow> None
         | (pid, pinfo, sc) # _ \<Rightarrow> Some (pid, pinfo))"

text \<open>
  \<open>select\<close> returns a dictionary keyed by slot name, in insertion order: an association
  list whose keys are inserted at most once each.
\<close>

definition select :: "recalled \<Rightarrow> (slot \<times> pattern_id \<times> pattern_info) list" where
  "select recalled_patterns =
     (let conservative = select_conservative recalled_patterns;
          selected = (case conservative of None \<Rightarrow> [] | Some c \<Rightarrow> [(Conservative, c)]);
          innovative =
            select_innovative recalled_patterns
              (case conservative of None \<Rightarrow> [] | Some c \<Rightarrow> [fst c]);
          selected =
            (case innovative of None \<Rightarrow> selected | Some i \<Rightarrow> selected @ [(Innovative, i)]);
          cross_domain =
            select_cross_domain recalled_patterns
              [map_option fst conservative, map_option fst innovative];
          selected =
            (case cross_domain of
               None \<Rightarrow> selected
             | Some c \<Rightarrow> selected @ [(Cross_Domain, c)])
      in selected)"

section \<open>Python floats and JSON values\<close>

text \<open>
  A Python float is an IEEE 754 binary64 number: a finite number, given here by its value,
  an infinity or a NaN. The two zeros are not told apart; no result of the program depends
  on the sign of a zero.
\<close>

datatype pyfloat = Finite real | PosInf | NegInf | NaN

text \<open>Rounding to the nearest whole number, a tie to the even one.\<close>

definition round_half_even :: "real \<Rightarrow> int" where
  "round_half_even x =
     (let f = \<lfloor>x\<rfloor>; d = x - of_int f
      in if d < 1 / 2 then f else if 1 / 2 < d then f + 1 else if even f then f else f + 1)"

text \<open>
  The binary exponent of a positive number: \<open>scale_down\<close> halves a number that is at least
  2 until it is below 2, \<open>scale_up\<close> doubles a number below 1 until it is at least 1 or
  the least exponent of a normal number, -1022, is reached (the subnormal numbers share
  that exponent). Both count the steps in the exponent.
\<close>

function scale_down :: "real \<Rightarrow> int \<Rightarrow> real \<times> int" where
  "scale_down y e = (if 2 \<le> y then scale_down (y / 2) (e + 1) else (y, e))"
  by pat_completeness auto
termination
proof (relation "measure (\<lambda>(y, e). nat \<lfloor>y\<rfloor>)")
  show "wf (measure (\<lambda>(y, e). nat \<lfloor>y\<rfloor>))" by simp
next
  fix y :: real and e :: int
  assume "2 \<le> y"
  then have "\<lfloor>y / 2\<rfloor> < \<lfloor>y\<rfloor>" and "0 < \<lfloor>y\<rfloor>" by linarith+
  then show "((y / 2, e + 1), (y, e)) \<in> measure (\<lambda>(y, e). nat \<lfloor>y\<rfloor>)" by simp
qed

function scale_up :: "real \<Rightarrow> int \<Rightarrow> real \<times> int" where
  "scale_up y e = (if y < 1 \<and> - 1022 < e then scale_up (y * 2) (e - 1) else (y, e))"
  by pat_completeness auto
termination
  by (relation "measure (\<lambda>(y, e). nat (e + 1022))") auto

declare scale_down.simps [simp del] scale_up.simps [simp del]

definition pow2 :: "int \<Rightarrow> real" where
  "pow2 e = (if 0 \<le> e then 2 ^ nat e else 1 / 2 ^ nat (- e))"

text \<open>
  The double nearest to a positive number \<open>a\<close>: with \<open>a = y * 2 ^ e\<close> and \<open>1 \<le> y < 2\<close>
  (or \<open>y < 1\<close> and \<open>e = -1022\<close>) the significand \<open>y * 2 ^ 52\<close> is rounded to a whole number,
  a tie to the even one. The exponent is not bounded from above here.
\<close>

definition round_magnitude :: "real \<Rightarrow> real" where
  "round_magnitude a =
     (let (y, e) = (if 1 \<le> a then scale_down a 0 else scale_up a 0)
      in of_int (round_half_even (y * 2 ^ 52)) * pow2 (e - 52))"

text \<open>
  The float that an operation with the exact result \<open>x\<close> returns, and that \<open>float\<close> and
  \<open>json.loads\<close> return for a number written as \<open>x\<close>: the nearest double, an infinity when
  the rounded magnitude reaches \<open>2 ^ 1024\<close>.
\<close>

definition round_double :: "real \<Rightarrow> pyfloat" where
  "round_double x =
     (if x = 0 then Finite 0
      else let r = round_magnitude \<bar>x\<bar>
           in if 2 ^ 1024 \<le> r then (if 0 < x then PosInf else NegInf)
              else Finite (if 0 < x then r else - r))"

text \<open>\<open>x + y\<close> on floats. No addition of floats raises an exception.\<close>

fun fadd :: "pyfloat \<Rightarrow> pyfloat \<Rightarrow> pyfloat" where
  "fadd (Finite x) (Finite y) = round_double (x + y)"
| "fadd (Finite x) PosInf = PosInf"
| "fadd (Finite x) NegInf = NegInf"
| "fadd PosInf (Finite y) = PosInf"
| "fadd PosInf PosInf = PosInf"
| "fadd NegInf (Finite y) = NegInf"
| "fadd NegInf NegInf = NegInf"
| "fadd PosInf NegInf = NaN"
| "fadd NegInf PosInf = NaN"
| "fadd NaN y = NaN"
| "fadd x NaN = NaN"

text \<open>\<open>x <= y\<close> and \<open>x < y\<close> on floats: false when an operand is a NaN.\<close>

fun fle :: "pyfloat \<Rightarrow> pyfloat \<Rightarrow> bool" where
  "fle (Finite x) (Finite y) = (x \<le> y)"
| "fle NaN y = False"
| "fle x NaN = False"
| "fle NegInf y = True"
| "fle x PosInf = True"
| "fle PosInf y = False"
| "fle x NegInf = False"

fun flt :: "pyfloat \<Rightarrow> pyfloat \<Rightarrow> bool" where
  "flt (Finite x) (Finite y) = (x < y)"
| "flt NaN y = False"
| "flt x NaN = False"
| "flt PosInf y = False"
| "flt x NegInf = False"
| "flt NegInf y = True"
| "flt x PosInf = True"

text \<open>
  \<open>x / n\<close> for a float \<open>x\<close> and the length \<open>n\<close> of a list that is not empty: the length is
  converted to a float, exactly, and the quotient is rounded.
\<close>

definition div_by_len :: "pyfloat \<Rightarrow> nat \<Rightarrow> pyfloat" where
  "div_by_len x n =
     (case x of
        Finite a \<Rightarrow> round_double (a / real n)
      | PosInf \<Rightarrow> PosInf
      | NegInf \<Rightarrow> NegInf
      | NaN \<Rightarrow> NaN)"

text \<open>
  \<open>sum(xs)\<close> for a list of floats: the additions from left to right, starting with the
  integer 0. This is the \<open>sum\<close> of CPython up to version 3.11; from 3.12 on \<open>sum\<close>
  compensates the rounding errors of the additions.
\<close>

definition py_sum :: "pyfloat list \<Rightarrow> pyfloat" where
  "py_sum xs = fold (\<lambda>x acc. fadd acc x) xs (Finite 0)"

text \<open>
  \<open>min(xs)\<close> for a list that is not empty: the first item is kept until an item compares
  less than it.
\<close>

fun py_min :: "pyfloat list \<Rightarrow> pyfloat" where
  "py_min (x # xs) = fold (\<lambda>item cur. if flt item cur then item else cur) xs x"


text \<open>A value that \<open>json.loads\<close> returns.\<close>

datatype json =
    JNull
  | JBool bool
  | JNumber real
  | JString pystr
  | JArray "json list"
  | JObject "(pystr \<times> json) list"

section \<open>Phase 3: MultiAgentCritic\<close>

record reviewer_info =
  reviewer_name :: string
  reviewer_role :: string

definition reviewers :: "reviewer_info list" where
  "reviewers =
     [\<lparr>reviewer_name = ''Reviewer A'', reviewer_role = ''Methodology''\<rparr>,
      \<lparr>reviewer_name = ''Reviewer B'', reviewer_role = ''Novelty''\<rparr>,
      \<lparr>reviewer_name = ''Reviewer C'', reviewer_role = ''Storyteller''\<rparr>]"

record review_entry =
  reviewer :: string
  role :: string
  score :: pyfloat
  feedback :: json

record critic_result =
  pass :: bool
  avg_score :: pyfloat
  reviews :: "review_entry list"
  main_issue :: string
  suggestions :: "pystr list"

text \<open>
  \<open>_single_review\<close> asks the language model and parses its answer into a score and a
  feedback. The score is a float in every case: \<open>float(result.get('score', 5.0))\<close>, or the
  float of the digits that the fallback finds, or 5.0. The feedback is the value that the
  answer gives under \<open>feedback\<close>, of any JSON type, or a text. The parsed answer is the
  argument \<open>answer\<close>: one critique is a function from the reviewer to the answer given to
  that reviewer.
\<close>

type_synonym llm_review = "reviewer_info \<Rightarrow> pyfloat \<times> json"

definition single_review :: "llm_review \<Rightarrow> reviewer_info \<Rightarrow> review_entry" where
  "single_review answer r =
     \<lparr>reviewer = reviewer_name r, role = reviewer_role r,
      score = fst (answer r), feedback = snd (answer r)\<rparr>"

text \<open>
  \<open>scores.index(x)\<close>: the first position of an item that is \<open>x\<close>. The argument is
  \<open>min(scores)\<close>, an item of the list.
\<close>

fun index_of :: "'a \<Rightarrow> 'a list \<Rightarrow> nat" where
  "index_of x [] = 0"
| "index_of x (y # ys) = (if x = y then 0 else Suc (index_of x ys))"

text \<open>
  The suggestion texts of \<open>_diagnose_issue\<close> are Chinese sentences that are only printed;
  they are given by their code points.
\<close>

definition suggestions_novelty :: "pystr list" where
  "suggestions_novelty =
     [[27880, 20837, 20919, 38376, 32, 84, 114, 105, 99, 107, 32, 25552, 21319, 26032, 39062, 24615],
      [23547, 25214, 38271, 23614, 32, 80, 97, 116, 116, 101, 114, 110]]"

definition suggestions_stability :: "pystr list" where
  "suggestions_stability =
     [[27880, 20837, 25104, 29087, 31283, 20581, 30340, 32, 84, 114, 105, 99, 107],
      [22686, 21152, 40065, 26834, 24615, 39564, 35777]]"

definition suggestions_interpretability :: "pystr list" where
  "suggestions_interpretability =
     [[22686, 21152, 21487, 35270, 21270, 20998, 26512],
      [34917, 20805, 32, 67, 97, 115, 101, 32, 83, 116, 117, 100, 121]]"

definition suggestions_domain :: "pystr list" where
  "suggestions_domain =
     [[35843, 25972, 39046, 22495, 36866, 37197, 26041, 27861],
      [22686, 21152, 39044, 22788, 29702, 27493, 39588]]"

definition diagnose_issue :: "review_entry list \<Rightarrow> pyfloat list \<Rightarrow> string \<times> pystr list" where
  "diagnose_issue rs scores =
     (let min_idx = index_of (py_min scores) scores;
          worst_review = rs ! min_idx;
          r = role worst_review
      in if r = ''Novelty'' then (''novelty'', suggestions_novelty)
         else if r = ''Methodology'' then (''stability'', suggestions_stability)
         else if r = ''Storyteller'' then (''interpretability'', suggestions_interpretability)
         else (''domain_mismatch'', suggestions_domain))"

text \<open>
  \<open>review\<close>: the average is \<open>sum(scores) / len(scores)\<close> in floats, and the critique
  passes when \<open>avg_score >= PASS_SCORE\<close>.
\<close>

definition review :: "llm_review \<Rightarrow> critic_result" where
  "review answer =
     (let rs = map (single_review answer) reviewers;
          scores = map score rs;
          avg = div_by_len (py_sum scores) (length scores);
          passed = fle (Finite PASS_SCORE) avg;
          (issue, sugg) = diagnose_issue rs scores
      in \<lparr>pass = passed, avg_score = avg, reviews = rs, main_issue = issue,
          suggestions = sugg\<rparr>)"

section \<open>Phase 4: RAGVerifier\<close>

text \<open>
  Of a paper the verifier reads \<open>paper_id\<close>, \<open>title\<close> and the \<open>method_story\<close> of its
  skeleton, each with the empty text as default; the edge builder reads its \<open>domains\<close>
  (default: the empty list). A story's \<open>method_skeleton\<close> is a text,
  a dictionary (the verifier joins the texts of its non-empty values with blanks) or
  another value, which is given by its \<open>str()\<close> rendering. A story is the dictionary
  that \<open>json.loads\<close> made of an answer of the language model: its \<open>abstract\<close> is a value of
  any JSON type, or is missing.
\<close>

record paper =
  paper_id :: pystr
  paper_title :: pystr
  method_story :: pystr
  domains :: "pystr list"

datatype method_value =
    Method_Str pystr
  | Method_Dict "(pystr \<times> pystr) list"
  | Method_Other pystr

record story =
  story_title :: pystr
  method_skeleton :: method_value
  abstract :: "json option"

record similar_paper =
  sp_paper_id :: pystr
  sp_title :: pystr
  similarity :: real
  sp_method :: pystr

record verification_result =
  verification_pass :: bool
  collision_detected :: bool
  similar_papers :: "similar_paper list"
  max_similarity :: real

text \<open>\<open>sep.join(parts)\<close>\<close>

fun join :: "pystr \<Rightarrow> pystr list \<Rightarrow> pystr" where
  "join sep [] = []"
| "join sep [x] = x"
| "join sep (x # y # ys) = x @ sep @ join sep (y # ys)"

definition method_text :: "method_value \<Rightarrow> pystr" where
  "method_text m =
     (case m of
        Method_Str s \<Rightarrow> s
      | Method_Dict kvs \<Rightarrow> join [32] (filter (\<lambda>v. v \<noteq> []) (map snd kvs))
      | Method_Other s \<Rightarrow> s)"

text \<open>One round of the loop over \<open>self.papers[:50]\<close>.\<close>

definition verify_step ::
  "(pystr \<Rightarrow> pystr) \<Rightarrow> pystr \<Rightarrow> paper \<Rightarrow> similar_paper list \<times> real
     \<Rightarrow> similar_paper list \<times> real" where
  "verify_step lw method p acc =
     (let paper_method = method_story p in
      if paper_method = [] then acc
      else let sim = compute_similarity lw method paper_method in
           if sim > 3 / 10
           then (fst acc @ [\<lparr>sp_paper_id = paper_id p, sp_title = paper_title p,
                            similarity = sim, sp_method = take 100 paper_method\<rparr>],
                 max (snd acc) sim)
           else acc)"

definition verify :: "(pystr \<Rightarrow> pystr) \<Rightarrow> paper list \<Rightarrow> story \<Rightarrow> verification_result" where
  "verify lw papers st =
     (let method = method_text (method_skeleton st);
          acc = fold (verify_step lw method) (take 50 papers) ([], 0);
          sorted_papers = sort_key (\<lambda>x. - similarity x) (fst acc);
          top_similar = take 3 sorted_papers;
          collision = (snd acc > COLLISION_THRESHOLD)
      in \<lparr>verification_pass = \<not> collision, collision_detected = collision,
          similar_papers = top_similar, max_similarity = snd acc\<rparr>)"




text \<open>The papers that \<open>verify\<close> records: a non-empty method text whose similarity exceeds 0.3.\<close>

definition kept :: "(pystr \<Rightarrow> pystr) \<Rightarrow> pystr \<Rightarrow> paper \<Rightarrow> bool" where
  "kept lw method p =
     (method_story p \<noteq> [] \<and> compute_similarity lw method (method_story p) > 3 / 10)"

text \<open>Concrete papers and stories on which the verifier is evaluated.\<close>

definition paper_a :: paper where
  "paper_a = \<lparr>paper_id = uni ''p1'', paper_title = uni ''T1'', method_story = uni ''a x y z'', domains = []\<rparr>"

definition story_a :: story where
  "story_a = \<lparr>story_title = uni ''S'', method_skeleton = Method_Str (uni ''a b c d''),
               abstract = Some (JString (uni ''A''))\<rparr>"

definition paper_gnn :: paper where
  "paper_gnn = \<lparr>paper_id = uni ''p2'', paper_title = uni ''T2'',
                 method_story = uni ''graph neural network'', domains = []\<rparr>"

definition story_gnn :: story where
  "story_gnn = \<lparr>story_title = uni ''S'', method_skeleton = Method_Str (uni ''graph neural network''),
                 abstract = Some (JString (uni ''A''))\<rparr>"

definition paper_blank :: paper where
  "paper_blank = \<lparr>paper_id = uni ''p3'', paper_title = uni ''T3'', method_story = uni '' '', domains = []\<rparr>"

definition story_blank :: story where
  "story_blank = \<lparr>story_title = uni ''S'', method_skeleton = Method_Str (uni '' ''),
                   abstract = Some (JString (uni ''A''))\<rparr>"

definition paper_wxyz :: paper where
  "paper_wxyz = \<lparr>paper_id = uni ''p4'', paper_title = uni ''T4'', method_story = uni ''w x y z'', domains = []\<rparr>"

section \<open>Dictionaries and the knowledge graph\<close>

text \<open>
  A Python dictionary keeps its keys in insertion order: an association list with distinct
  keys. \<open>dict_add k v d\<close> is \<open>d[k] += v\<close> on a \<open>defaultdict\<close> whose default is zero, and
  \<open>dict_get d k dflt\<close> is \<open>d.get(k, dflt)\<close>. A dictionary built by a comprehension
  \<open>{key(x): x for x in xs}\<close> maps a key to the last element that has it.
\<close>

fun dict_add :: "'k \<Rightarrow> 'v::monoid_add \<Rightarrow> ('k \<times> 'v) list \<Rightarrow> ('k \<times> 'v) list" where
  "dict_add k v [] = [(k, 0 + v)]"
| "dict_add k v ((k', x) # d) =
     (if k = k' then (k', x + v) # d else (k', x) # dict_add k v d)"

definition dict_get :: "('k \<times> 'v) list \<Rightarrow> 'k \<Rightarrow> 'v \<Rightarrow> 'v" where
  "dict_get d k dflt = (case map_of d k of None \<Rightarrow> dflt | Some v \<Rightarrow> v)"

definition dict_keys :: "('k \<times> 'v) list \<Rightarrow> 'k set" where
  "dict_keys d = fst ` set d"

definition index_by :: "('a \<Rightarrow> 'k) \<Rightarrow> 'a list \<Rightarrow> 'k \<Rightarrow> 'a option" where
  "index_by key xs = map_of (rev (map (\<lambda>x. (key x, x)) xs))"

text \<open>
  The attributes of an edge of the \<open>networkx.DiGraph\<close>. Every edge the builders add has a
  \<open>relation\<close>; the other attributes depend on the relation and are \<open>None\<close> when absent.
\<close>

record edge_data =
  relation :: string
  quality :: "real option"
  weight :: "real option"
  paper_count :: "nat option"
  total_papers :: "nat option"

text \<open>
  The graph as adjacency lists: each node with its successors, in insertion order, and the
  data of the edge to each. A \<open>DiGraph\<close> has at most one edge from a node to another, so
  the data paired with a successor is \<open>G[node][successor]\<close>.
\<close>

type_synonym graph = "(pystr \<times> (pystr \<times> edge_data) list) list"

definition has_node :: "graph \<Rightarrow> pystr \<Rightarrow> bool" where
  "has_node G n = (n \<in> fst ` set G)"

definition successors :: "graph \<Rightarrow> pystr \<Rightarrow> (pystr \<times> edge_data) list" where
  "successors G n = (case map_of G n of None \<Rightarrow> [] | Some adj \<Rightarrow> adj)"

record idea =
  idea_id :: pystr
  description :: pystr
  source_paper_ids :: "pystr list"
  pattern_ids :: "pystr list"

record domain =
  domain_id :: pystr
  domain_name :: pystr

section \<open>Recall: path 1 and the fusion\<close>

text \<open>The constants of \<open>RecallConfig\<close> (recall_system.py) that path 1 and the fusion read.\<close>

definition PATH1_TOP_K_IDEAS :: nat where
  "PATH1_TOP_K_IDEAS = 10"

definition FINAL_TOP_K :: nat where
  "FINAL_TOP_K = 10"

record path_weights =
  PATH1_WEIGHT :: real
  PATH2_WEIGHT :: real
  PATH3_WEIGHT :: real

definition RecallConfig_weights :: path_weights where
  "RecallConfig_weights = \<lparr>PATH1_WEIGHT = 4 / 10, PATH2_WEIGHT = 3 / 10, PATH3_WEIGHT = 3 / 10\<rparr>"

text \<open>The module constants of simple_recall_demo.py.\<close>

definition simple_demo_weights :: path_weights where
  "simple_demo_weights = \<lparr>PATH1_WEIGHT = 4 / 10, PATH2_WEIGHT = 2 / 10, PATH3_WEIGHT = 4 / 10\<rparr>"

definition TOP_K_IDEAS :: nat where
  "TOP_K_IDEAS = 10"

text \<open>
  Steps 1 and 2 of path 1: the ideas with a positive similarity, sorted by decreasing
  similarity (Python's sort is stable, and so is \<open>sort_key\<close>), cut to the first \<open>k\<close>.
\<close>

definition top_similar_ideas ::
  "(pystr \<Rightarrow> pystr \<Rightarrow> real) \<Rightarrow> nat \<Rightarrow> idea list \<Rightarrow> pystr \<Rightarrow> (pystr \<times> real) list" where
  "top_similar_ideas sim k ideas user_idea =
     (let similarities =
            concat (map (\<lambda>i. let s = sim user_idea (description i)
                              in if s > 0 then [(idea_id i, s)] else []) ideas)
      in take k (sort_key (\<lambda>x. - snd x) similarities))"

text \<open>
  Step 3 of \<open>RecallSystem._recall_path1_similar_ideas\<close>: for each kept idea, for each of
  its source papers that is a node of the graph, for each \<open>uses_pattern\<close> edge of the
  paper, \<open>pattern_scores[pattern_id] += similarity * quality\<close>.
\<close>

definition path1_paper ::
  "graph \<Rightarrow> real \<Rightarrow> pystr \<Rightarrow> (pystr \<times> real) list \<Rightarrow> (pystr \<times> real) list" where
  "path1_paper G s pid pattern_scores =
     (if \<not> has_node G pid then pattern_scores
      else fold (\<lambda>(successor, ed) sc.
                   if relation ed = ''uses_pattern''
                   then dict_add successor
                          (s * (case quality ed of None \<Rightarrow> 1 / 2 | Some q \<Rightarrow> q)) sc
                   else sc)
             (successors G pid) pattern_scores)"

text \<open>
  \<open>self.idea_id_to_idea[idea_id]\<close> cannot raise: every id in \<open>top_ideas\<close> is the id of an
  idea of the list. The \<open>None\<close> branch is there for totality only.
\<close>

definition path1_idea ::
  "graph \<Rightarrow> idea list \<Rightarrow> pystr \<times> real \<Rightarrow> (pystr \<times> real) list \<Rightarrow> (pystr \<times> real) list" where
  "path1_idea G ideas ti pattern_scores =
     (case index_by idea_id ideas (fst ti) of
        None \<Rightarrow> pattern_scores
      | Some i \<Rightarrow> fold (path1_paper G (snd ti)) (source_paper_ids i) pattern_scores)"

definition recall_path1_similar_ideas ::
  "(pystr \<Rightarrow> pystr) \<Rightarrow> idea list \<Rightarrow> graph \<Rightarrow> pystr \<Rightarrow> (pystr \<times> real) list" where
  "recall_path1_similar_ideas lw ideas G user_idea =
     (let top_ideas =
            top_similar_ideas (compute_text_similarity lw) PATH1_TOP_K_IDEAS ideas user_idea
      in fold (path1_idea G ideas) top_ideas [])"

text \<open>
  Path 1 of simple_recall_demo.py (and of the \<open>main\<close> of idea2story_pipeline.py): the
  character similarity, and \<open>path1_scores[pid] += similarity\<close> for each entry of the
  idea's own \<open>pattern_ids\<close>.
\<close>

definition simple_path1_idea ::
  "idea list \<Rightarrow> pystr \<times> real \<Rightarrow> (pystr \<times> real) list \<Rightarrow> (pystr \<times> real) list" where
  "simple_path1_idea ideas ti path1_scores =
     (case index_by idea_id ideas (fst ti) of
        None \<Rightarrow> path1_scores
      | Some i \<Rightarrow> fold (\<lambda>pid sc. dict_add pid (snd ti) sc) (pattern_ids i) path1_scores)"

definition simple_path1 ::
  "(pystr \<Rightarrow> pystr) \<Rightarrow> idea list \<Rightarrow> pystr \<Rightarrow> (pystr \<times> real) list" where
  "simple_path1 lw ideas user_idea =
     (let top_ideas =
            top_similar_ideas (compute_similarity_chars lw) TOP_K_IDEAS ideas user_idea
      in fold (simple_path1_idea ideas) top_ideas [])"

text \<open>
  The contributions to a pattern, in the order of the loops: what the specification calls
  the score contributions of the pattern's \<open>uses_pattern\<close> edges.
\<close>

definition paper_contributions :: "graph \<Rightarrow> real \<Rightarrow> pystr \<Rightarrow> (pystr \<times> real) list" where
  "paper_contributions G s pid =
     (if \<not> has_node G pid then []
      else map (\<lambda>(successor, ed). (successor, s * (case quality ed of None \<Rightarrow> 1 / 2 | Some q \<Rightarrow> q)))
             (filter (\<lambda>(successor, ed). relation ed = ''uses_pattern'') (successors G pid)))"

definition idea_contributions ::
  "graph \<Rightarrow> idea list \<Rightarrow> pystr \<times> real \<Rightarrow> (pystr \<times> real) list" where
  "idea_contributions G ideas ti =
     (case index_by idea_id ideas (fst ti) of
        None \<Rightarrow> []
      | Some i \<Rightarrow> concat (map (paper_contributions G (snd ti)) (source_paper_ids i)))"

definition path1_contributions ::
  "(pystr \<Rightarrow> pystr) \<Rightarrow> idea list \<Rightarrow> graph \<Rightarrow> pystr \<Rightarrow> (pystr \<times> real) list" where
  "path1_contributions lw ideas G user_idea =
     concat (map (idea_contributions G ideas)
       (top_similar_ideas (compute_text_similarity lw) PATH1_TOP_K_IDEAS ideas user_idea))"

definition simple_idea_contributions :: "idea list \<Rightarrow> pystr \<times> real \<Rightarrow> (pystr \<times> real) list" where
  "simple_idea_contributions ideas ti =
     (case index_by idea_id ideas (fst ti) of
        None \<Rightarrow> []
      | Some i \<Rightarrow> map (\<lambda>pid. (pid, snd ti)) (pattern_ids i))"

definition simple_path1_contributions ::
  "(pystr \<Rightarrow> pystr) \<Rightarrow> idea list \<Rightarrow> pystr \<Rightarrow> (pystr \<times> real) list" where
  "simple_path1_contributions lw ideas user_idea =
     concat (map (simple_idea_contributions ideas)
       (top_similar_ideas (compute_similarity_chars lw) TOP_K_IDEAS ideas user_idea))"

text \<open>The contributions to one pattern.\<close>

definition contributions_to :: "pystr \<Rightarrow> (pystr \<times> real) list \<Rightarrow> real list" where
  "contributions_to pid cs = map snd (filter (\<lambda>c. fst c = pid) cs)"

text \<open>
  The fusion of \<open>RecallSystem.recall\<close> and of simple_recall_demo.py. \<open>all_patterns\<close> is a
  Python set, whose iteration order is not fixed by the language: \<open>order\<close> is the order
  in which the loop visits it, any duplicate-free enumeration of the keys of the three
  score dictionaries.
\<close>

definition iterates :: "'a list \<Rightarrow> 'a set \<Rightarrow> bool" where
  "iterates order S = (distinct order \<and> set order = S)"

definition final_scores ::
  "path_weights \<Rightarrow> pystr list \<Rightarrow> (pystr \<times> real) list \<Rightarrow> (pystr \<times> real) list
     \<Rightarrow> (pystr \<times> real) list \<Rightarrow> (pystr \<times> real) list" where
  "final_scores w order path1_scores path2_scores path3_scores =
     map (\<lambda>pattern_id.
            let score1 = dict_get path1_scores pattern_id 0 * PATH1_WEIGHT w;
                score2 = dict_get path2_scores pattern_id 0 * PATH2_WEIGHT w;
                score3 = dict_get path3_scores pattern_id 0 * PATH3_WEIGHT w
            in (pattern_id, score1 + score2 + score3))
       order"

definition fuse ::
  "path_weights \<Rightarrow> nat \<Rightarrow> pystr list \<Rightarrow> (pystr \<times> real) list \<Rightarrow> (pystr \<times> real) list
     \<Rightarrow> (pystr \<times> real) list \<Rightarrow> (pystr \<times> real) list" where
  "fuse w k order path1_scores path2_scores path3_scores =
     (let ranked = sort_key (\<lambda>x. - snd x)
                     (final_scores w order path1_scores path2_scores path3_scores)
      in take k ranked)"

text \<open>
  \<open>RecallSystem.recall\<close> returns each ranked pattern with its node,
  \<open>pattern_id_to_pattern.get(pattern_id, {})\<close>.
\<close>

definition recall_results ::
  "(pystr \<Rightarrow> pattern_info option) \<Rightarrow> path_weights \<Rightarrow> nat \<Rightarrow> pystr list \<Rightarrow> (pystr \<times> real) list
     \<Rightarrow> (pystr \<times> real) list \<Rightarrow> (pystr \<times> real) list \<Rightarrow> recalled" where
  "recall_results pattern_id_to_pattern w k order path1_scores path2_scores path3_scores =
     map (\<lambda>(pattern_id, sc).
            (pattern_id,
             (case pattern_id_to_pattern pattern_id of None \<Rightarrow> empty_info | Some p \<Rightarrow> p),
             sc))
       (fuse w k order path1_scores path2_scores path3_scores)"

text \<open>
  The scenario of the specification: one idea \<open>graph neural network\<close> with two source
  papers that use the same pattern, and the query \<open>graph neural network for text\<close>.
\<close>

definition idea_gnn :: idea where
  "idea_gnn = \<lparr>idea_id = uni ''idea_0'', description = uni ''graph neural network'',
                source_paper_ids = [uni ''paper_0'', uni ''paper_1''],
                pattern_ids = [uni ''pattern_1'', uni ''pattern_9'']\<rparr>"

definition uses_pattern_edge :: "real option \<Rightarrow> edge_data" where
  "uses_pattern_edge q = \<lparr>relation = ''uses_pattern'', quality = q, weight = None,
                          paper_count = None, total_papers = None\<rparr>"

definition graph_gnn :: graph where
  "graph_gnn =
     [(uni ''paper_0'', [(uni ''pattern_1'', uses_pattern_edge (Some (4 / 5)))]),
      (uni ''paper_1'', [(uni ''pattern_1'', uses_pattern_edge (Some (1 / 2)))]),
      (uni ''pattern_1'', []),
      (uni ''idea_0'', [])]"

definition query_gnn :: pystr where
  "query_gnn = uni ''graph neural network for text''"

text \<open>Three score dictionaries on which the fusion is evaluated.\<close>

definition path1_ex :: "(pystr \<times> real) list" where
  "path1_ex = [(uni ''pattern_1'', 1), (uni ''pattern_2'', 1 / 2)]"

definition path2_ex :: "(pystr \<times> real) list" where
  "path2_ex = [(uni ''pattern_2'', 1)]"

definition path3_ex :: "(pystr \<times> real) list" where
  "path3_ex = [(uni ''pattern_3'', 2)]"

definition order_ex :: "pystr list" where
  "order_ex = [uni ''pattern_1'', uni ''pattern_2'', uni ''pattern_3'']"

section \<open>Edge builder: the \<open>belongs_to\<close> edges\<close>

text \<open>
  \<open>EdgeBuilder._build_idea_belongs_to_domain_edges\<close> (build_edges.py).
  \<open>domain_name_to_id.get(domain_name)\<close> is the id of the last domain of that name; the test
  \<open>if domain_id\<close> rejects a missing name and an empty id.
\<close>

definition domain_name_to_id :: "domain list \<Rightarrow> pystr \<Rightarrow> pystr option" where
  "domain_name_to_id doms n = map_option domain_id (index_by domain_name doms n)"

text \<open>The inner loop: \<open>domain_counts[domain_id] += 1\<close> for each domain name of the paper.\<close>

definition count_paper_domains ::
  "domain list \<Rightarrow> paper \<Rightarrow> (pystr \<times> nat) list \<Rightarrow> (pystr \<times> nat) list" where
  "count_paper_domains doms p domain_counts =
     fold (\<lambda>dname dc.
             case domain_name_to_id doms dname of
               None \<Rightarrow> dc
             | Some did \<Rightarrow> if did = [] then dc else dict_add did 1 dc)
       (domains p) domain_counts"

text \<open>The loop over \<open>source_paper_ids\<close>; an id that is no paper is skipped.\<close>

definition idea_domain_counts :: "domain list \<Rightarrow> paper list \<Rightarrow> idea \<Rightarrow> (pystr \<times> nat) list" where
  "idea_domain_counts doms papers i =
     fold (\<lambda>pid dc.
             case index_by paper_id papers pid of
               None \<Rightarrow> dc
             | Some p \<Rightarrow> count_paper_domains doms p dc)
       (source_paper_ids i) []"

text \<open>
  The edges added for one idea, in the order of the \<open>add_edge\<close> calls, each as
  \<open>(source, target, attributes)\<close>. Python's \<open>/\<close> on integers is the true quotient.
\<close>

definition belongs_to_edges ::
  "domain list \<Rightarrow> paper list \<Rightarrow> idea \<Rightarrow> (pystr \<times> pystr \<times> edge_data) list" where
  "belongs_to_edges doms papers i =
     (if source_paper_ids i = [] then []
      else let domain_counts = idea_domain_counts doms papers i;
               total = length (source_paper_ids i)
           in map (\<lambda>(did, count).
                     (idea_id i, did,
                      \<lparr>relation = ''belongs_to'', quality = None,
                       weight = Some (real count / real total),
                       paper_count = Some count, total_papers = Some total\<rparr>))
                domain_counts)"

definition build_idea_belongs_to_domain_edges ::
  "domain list \<Rightarrow> paper list \<Rightarrow> idea list \<Rightarrow> (pystr \<times> pystr \<times> edge_data) list" where
  "build_idea_belongs_to_domain_edges doms papers ideas =
     concat (map (belongs_to_edges doms papers) ideas)"

text \<open>The weight as the recall reads it: \<open>edge_data.get('weight', 0.5)\<close>.\<close>

definition get_weight :: "edge_data \<Rightarrow> real" where
  "get_weight ed = (case weight ed of None \<Rightarrow> 1 / 2 | Some w \<Rightarrow> w)"

definition edge_weights :: "(pystr \<times> pystr \<times> edge_data) list \<Rightarrow> real list" where
  "edge_weights es = map (\<lambda>(src, tgt, ed). get_weight ed) es"

text \<open>
  The domain ids that the labels of a paper resolve to, one for each label that names a
  domain, and the same for all source papers of an idea (a paper counted as often as the
  idea lists it).
\<close>

definition paper_domain_ids :: "domain list \<Rightarrow> paper \<Rightarrow> pystr list" where
  "paper_domain_ids doms p =
     concat (map (\<lambda>dname. case domain_name_to_id doms dname of
                              None \<Rightarrow> []
                            | Some did \<Rightarrow> if did = [] then [] else [did])
               (domains p))"

definition source_domain_ids :: "domain list \<Rightarrow> paper list \<Rightarrow> pystr \<Rightarrow> pystr list" where
  "source_domain_ids doms papers pid =
     (case index_by paper_id papers pid of
        None \<Rightarrow> []
      | Some p \<Rightarrow> paper_domain_ids doms p)"

definition resolved_domains :: "domain list \<Rightarrow> paper list \<Rightarrow> idea \<Rightarrow> pystr list" where
  "resolved_domains doms papers i =
     concat (map (source_domain_ids doms papers) (source_paper_ids i))"

text \<open>
  An idea with one source paper that lies in two domains, and an idea with two source
  papers of one domain each.
\<close>

definition domains_ex :: "domain list" where
  "domains_ex = [\<lparr>domain_id = uni ''domain_0'', domain_name = uni ''NLP''\<rparr>,
                 \<lparr>domain_id = uni ''domain_1'', domain_name = uni ''CV''\<rparr>]"

definition paper_two_domains :: paper where
  "paper_two_domains = \<lparr>paper_id = uni ''paper_7'', paper_title = uni ''T7'',
                         method_story = [], domains = [uni ''NLP'', uni ''CV'']\<rparr>"

definition paper_one_domain :: paper where
  "paper_one_domain = \<lparr>paper_id = uni ''paper_8'', paper_title = uni ''T8'',
                        method_story = [], domains = [uni ''CV'']\<rparr>"

definition paper_nlp :: paper where
  "paper_nlp = \<lparr>paper_id = uni ''paper_9'', paper_title = uni ''T9'',
                 method_story = [], domains = [uni ''NLP'']\<rparr>"

definition papers_ex :: "paper list" where
  "papers_ex = [paper_two_domains, paper_one_domain, paper_nlp]"

definition idea_two_domains :: idea where
  "idea_two_domains = \<lparr>idea_id = uni ''idea_1'', description = uni ''vision and language'',
                        source_paper_ids = [uni ''paper_7''], pattern_ids = []\<rparr>"

definition idea_single_domains :: idea where
  "idea_single_domains = \<lparr>idea_id = uni ''idea_2'', description = uni ''vision'',
                           source_paper_ids = [uni ''paper_8'', uni ''paper_9''], pattern_ids = []\<rparr>"

text \<open>Counting the elements of a list into a dictionary, one \<open>+= 1\<close> for each.\<close>

definition tally :: "'k list \<Rightarrow> ('k \<times> nat) list \<Rightarrow> ('k \<times> nat) list" where
  "tally xs d = fold (\<lambda>x dc. dict_add x 1 dc) xs d"

section \<open>Phase 3.5: RefinementEngine\<close>

text \<open>
  The Chinese literals of the engine are given by their code points. \<open>GENERIC_TRICKS\<close> is
  the class attribute of that name; the other lists are the fixed trick lists the engine
  returns and the key words that \<open>_inject_head_tricks\<close> looks for.
\<close>

definition GENERIC_TRICKS :: "pystr list" where
  "GENERIC_TRICKS =
     [[28040, 34701, 23454, 39564],
      [22810, 25968, 25454, 38598, 39564, 35777],
      [23545, 27604, 23454, 39564],
      [67, 97, 115, 101, 32, 83, 116, 117, 100, 121],
      [26696, 20363, 20998, 26512],
      [21487, 35270, 21270],
      [65, 116, 116, 101, 110, 116, 105, 111, 110, 32, 21487, 35270, 21270],
      [21442, 25968, 25935, 24863, 24615, 20998, 26512],
      [40065, 26834, 24615, 27979, 35797],
      [29616, 26377, 26041, 27861, 23616, 38480, 24615],
      [36923, 36753, 36882, 36827],
      [21465, 20107, 32467, 26500],
      [24615, 33021, 25552, 21319],
      [23454, 39564, 39564, 35777]]"

definition tail_fallback_tricks :: "pystr list" where
  "tail_fallback_tricks =
     [[24341, 20837, 23545, 27604, 23398, 20064, 36127, 37319, 26679, 20248, 21270, 31574,
       30053],
      [35774, 35745, 22810, 23610, 24230, 29305, 24449, 34701, 21512, 26426, 21046],
      [28155, 21152, 33258, 36866, 24212, 21160, 24577, 26435, 37325, 20998, 37197]]"

definition stability_keywords :: "pystr list" where
  "stability_keywords =
     [[31283, 23450],
      [40065, 26834],
      [19968, 33268],
      [23545, 25239],
      [27491, 21017],
      [28151, 21512]]"

definition explanation_tricks :: "pystr list" where
  "explanation_tricks =
     [[22686, 21152, 32, 65, 116, 116, 101, 110, 116, 105, 111, 110, 32, 26435, 37325, 21487,
       35270, 21270, 20998, 26512],
      [35774, 35745, 20195, 34920, 24615, 26679, 26412, 30340, 32, 67, 97, 115, 101, 32, 83,
       116, 117, 100, 121],
      [28155, 21152, 28040, 34701, 23454, 39564, 35828, 26126, 21508, 32452, 20214, 36129,
       29486]]"

definition domain_tricks :: "pystr list" where
  "domain_tricks =
     [[22686, 21152, 39046, 22495, 29305, 23450, 30340, 25968, 25454, 39044, 22788, 29702,
       27493, 39588],
      [35774, 35745, 39046, 22495, 30456, 20851, 30340, 29305, 24449, 25552, 21462, 26041,
       27861],
      [35843, 25972, 35780, 20272, 25351, 26631, 20197, 36866, 37197, 30446, 26631, 39046,
       22495]]"

text \<open>
  The fragments of the f-strings that build an injection instruction: the text before
  and after the pattern name.
\<close>

definition tail_method_prefix :: pystr where
  "tail_method_prefix =
     [12304, 26041, 27861, 35770, 37325, 26500, 12305, 21442, 32771, 32]"

definition tail_method_infix :: pystr where
  "tail_method_infix =
     [32, 30340, 26680, 24515, 25216, 26415, 36335, 32447, 65306]"

definition tail_tech_prefix :: pystr where
  "tail_tech_prefix =
     [12304, 26680, 24515, 25216, 26415, 12305, 34701, 21512, 32]"

definition tail_tech_infix :: pystr where
  "tail_tech_infix =
     [32, 30340, 20851, 38190, 25216, 26415, 28857, 65306]"

definition tail_plain_prefix :: pystr where
  "tail_plain_prefix =
     [34701, 21512, 32]"

definition tail_plain_suffix :: pystr where
  "tail_plain_suffix =
     [32, 30340, 26680, 24515, 24605, 36335, 65292, 37325, 26500, 29616, 26377, 26041,
      27861, 35770]"

definition head_method_prefix :: pystr where
  "head_method_prefix =
     [12304, 31283, 23450, 24615, 26041, 27861, 35770, 12305, 21442, 32771, 32]"

definition head_method_infix :: pystr where
  "head_method_infix =
     [32, 30340, 40065, 26834, 24615, 35774, 35745, 65306]"

definition head_tech_prefix :: pystr where
  "head_tech_prefix =
     [12304, 31283, 23450, 24615, 25216, 26415, 12305, 34701, 21512, 32]"

definition head_tech_infix :: pystr where
  "head_tech_infix =
     [32, 30340, 25104, 29087, 25216, 26415, 65306]"

definition head_plain_suffix :: pystr where
  "head_plain_suffix =
     [32, 30340, 25104, 29087, 26041, 27861, 65292, 22686, 24378, 25216, 26415, 31283,
      23450, 24615]"

definition plus_sep :: pystr where
  "plus_sep =
     [32, 43, 32]"

text \<open>\<open>range(start, min(end + 1, len(xs)))\<close> as the slice of the list it indexes.\<close>

definition rank_window :: "nat \<times> nat \<Rightarrow> 'a list \<Rightarrow> 'a list" where
  "rank_window r xs = drop (fst r) (take (min (snd r + 1) (length xs)) xs)"

text \<open>
  The loop over \<open>top_tricks[:5]\<close> skips the generic names, appends the others and breaks
  once two are collected: the first two names that are not generic.
\<close>

definition is_generic :: "pystr \<Rightarrow> bool" where
  "is_generic trick_name = list_ex (\<lambda>gt. str_in gt trick_name) GENERIC_TRICKS"

definition tech_tricks_of :: "pattern_info \<Rightarrow> pystr list" where
  "tech_tricks_of pinfo = take 2 (filter (\<lambda>n. \<not> is_generic n) (take 5 (top_tricks pinfo)))"

subsection \<open>Tail injection\<close>

text \<open>
  The candidates of \<open>_inject_tail_tricks\<close>: the unused patterns of the rank window whose
  cluster size is below the threshold; when there is none, all unused patterns, sorted by
  cluster size.
\<close>

definition tail_candidates ::
  "recalled \<Rightarrow> pattern_id set \<Rightarrow> (pattern_id \<times> pattern_info \<times> int) list" where
  "tail_candidates recalled_patterns used =
     (let candidates =
            concat (map (\<lambda>(pid, pinfo, sc).
                           if pid \<in> used then []
                           else let cs = get_cluster_size pinfo 999
                                in if cs < INNOVATIVE_CLUSTER_SIZE_THRESHOLD
                                   then [(pid, pinfo, cs)] else [])
                      (rank_window TAIL_INJECTION_RANK_RANGE recalled_patterns))
      in if candidates = []
         then sort_key (\<lambda>(pid, pinfo, cs). cs)
                (map (\<lambda>(pid, pinfo, sc). (pid, pinfo, get_cluster_size pinfo 999))
                   (filter (\<lambda>(pid, pinfo, sc). pid \<notin> used) recalled_patterns))
         else candidates)"

text \<open>
  The pattern chosen for the injection: the first candidate after the (stable) sort by
  cluster size; \<open>None\<close> when every recalled pattern has been used.
\<close>

definition tail_select ::
  "recalled \<Rightarrow> pattern_id set \<Rightarrow> (pattern_id \<times> pattern_info \<times> int) option" where
  "tail_select recalled_patterns used =
     (case sort_key (\<lambda>(pid, pinfo, cs). cs) (tail_candidates recalled_patterns used) of
        [] \<Rightarrow> None
      | selected_pattern # _ \<Rightarrow> Some selected_pattern)"

definition tail_instructions :: "pattern_info \<Rightarrow> pystr list" where
  "tail_instructions pinfo =
     (let pattern_name = name pinfo;
          method_insights =
            map (take 150) (filter (\<lambda>m. m \<noteq> []) (take 2 (skeleton_examples pinfo)));
          tech_tricks = tech_tricks_of pinfo;
          injection_instructions =
            (case method_insights of
               [] \<Rightarrow> []
             | insight # _ \<Rightarrow>
                 [tail_method_prefix @ pattern_name @ tail_method_infix @ insight])
            @ (if tech_tricks \<noteq> []
               then [tail_tech_prefix @ pattern_name @ tail_tech_infix
                       @ join plus_sep tech_tricks]
               else [])
      in if injection_instructions = []
         then [tail_plain_prefix @ pattern_name @ tail_plain_suffix]
         else injection_instructions)"

text \<open>
  \<open>_inject_tail_tricks\<close> returns the instructions and adds the chosen pattern to
  \<open>self.used_patterns\<close>; the model returns the instructions and the new set.
\<close>

definition inject_tail_tricks :: "recalled \<Rightarrow> pattern_id set \<Rightarrow> pystr list \<times> pattern_id set" where
  "inject_tail_tricks recalled_patterns used =
     (case tail_select recalled_patterns used of
        None \<Rightarrow> (tail_fallback_tricks, used)
      | Some (pid, pinfo, cs) \<Rightarrow> (tail_instructions pinfo, insert pid used))"

subsection \<open>Head injection\<close>

definition head_candidates ::
  "recalled \<Rightarrow> pattern_id set \<Rightarrow> (pattern_id \<times> pattern_info \<times> int) list" where
  "head_candidates recalled_patterns used =
     (let unused_of = (\<lambda>xs. map (\<lambda>(pid, pinfo, sc). (pid, pinfo, get_cluster_size pinfo 0))
                              (filter (\<lambda>(pid, pinfo, sc). pid \<notin> used) xs));
          candidates =
            filter (\<lambda>(pid, pinfo, cs). cs > HEAD_INJECTION_CLUSTER_THRESHOLD)
              (unused_of (rank_window HEAD_INJECTION_RANK_RANGE recalled_patterns));
          candidates =
            (if candidates = []
             then sort_key (\<lambda>(pid, pinfo, cs). - cs) (unused_of (take 3 recalled_patterns))
             else candidates);
          candidates =
            (if candidates = []
             then sort_key (\<lambda>(pid, pinfo, cs). - cs)
                    (unused_of (take 3 (drop 3 recalled_patterns)))
             else candidates)
      in candidates)"

definition head_select ::
  "recalled \<Rightarrow> pattern_id set \<Rightarrow> (pattern_id \<times> pattern_info \<times> int) option" where
  "head_select recalled_patterns used =
     (case head_candidates recalled_patterns used of
        [] \<Rightarrow> None
      | selected_pattern # _ \<Rightarrow> Some selected_pattern)"

definition head_instructions :: "(pystr \<Rightarrow> pystr) \<Rightarrow> pattern_info \<Rightarrow> pystr list" where
  "head_instructions lw pinfo =
     (let pattern_name = name pinfo;
          tech_tricks = tech_tricks_of pinfo;
          matching =
            take 2 (map (take 150)
              (filter (\<lambda>m. m \<noteq> [] \<and> list_ex (\<lambda>kw. str_in kw (lw m)) stability_keywords)
                 (take 3 (skeleton_examples pinfo))));
          stability_methods =
            (if matching = []
             then map (take 150) (filter (\<lambda>m. m \<noteq> []) (take 2 (skeleton_examples pinfo)))
             else matching);
          injection_instructions =
            (case stability_methods of
               [] \<Rightarrow> []
             | m # _ \<Rightarrow> [head_method_prefix @ pattern_name @ head_method_infix @ m])
            @ (if tech_tricks \<noteq> []
               then [head_tech_prefix @ pattern_name @ head_tech_infix
                       @ join plus_sep tech_tricks]
               else [])
      in if injection_instructions = []
         then [tail_plain_prefix @ pattern_name @ head_plain_suffix]
         else injection_instructions)"

definition inject_head_tricks ::
  "(pystr \<Rightarrow> pystr) \<Rightarrow> recalled \<Rightarrow> pattern_id set \<Rightarrow> pystr list \<times> pattern_id set" where
  "inject_head_tricks lw recalled_patterns used =
     (case head_select recalled_patterns used of
        None \<Rightarrow> ([], used)
      | Some (pid, pinfo, cs) \<Rightarrow> (head_instructions lw pinfo, insert pid used))"

subsection \<open>\<open>refine\<close>\<close>

definition refine ::
  "(pystr \<Rightarrow> pystr) \<Rightarrow> recalled \<Rightarrow> string \<Rightarrow> pattern_id set \<Rightarrow> pystr list \<times> pattern_id set" where
  "refine lw recalled_patterns issue used =
     (if issue = ''novelty'' then inject_tail_tricks recalled_patterns used
      else if issue = ''stability'' then inject_head_tricks lw recalled_patterns used
      else if issue = ''interpretability'' then (explanation_tricks, used)
      else if issue = ''domain_mismatch'' then (domain_tricks, used)
      else ([], used))"

text \<open>The pattern that a call of \<open>refine\<close> chooses for injection, if it chooses one.\<close>

definition chosen_pattern :: "recalled \<Rightarrow> string \<Rightarrow> pattern_id set \<Rightarrow> pattern_id option" where
  "chosen_pattern recalled_patterns issue used =
     (if issue = ''novelty'' then map_option fst (tail_select recalled_patterns used)
      else if issue = ''stability'' then map_option fst (head_select recalled_patterns used)
      else None)"

text \<open>
  A session of the engine: \<open>used_patterns\<close> starts empty and \<open>refine\<close> is called once for
  each issue of the list. The result is the list of the patterns chosen, call by call, and
  the final \<open>used_patterns\<close>.
\<close>

fun session ::
  "(pystr \<Rightarrow> pystr) \<Rightarrow> recalled \<Rightarrow> string list \<Rightarrow> pattern_id set
     \<Rightarrow> pattern_id option list \<times> pattern_id set" where
  "session lw recalled_patterns [] used = ([], used)"
| "session lw recalled_patterns (issue # issues) used =
     (let chosen = chosen_pattern recalled_patterns issue used;
          used' = snd (refine lw recalled_patterns issue used);
          rest = session lw recalled_patterns issues used'
      in (chosen # fst rest, snd rest))"

text \<open>The pattern ids of the successful pattern-based injections of a session.\<close>

definition injected_ids :: "pattern_id option list \<Rightarrow> pattern_id list" where
  "injected_ids chosen = concat (map (\<lambda>c. case c of None \<Rightarrow> [] | Some p \<Rightarrow> [p]) chosen)"

text \<open>
  Three recalled patterns with cluster sizes 30, 5 and 20, on which the engine and the
  orchestrator are evaluated.
\<close>

definition pinfo_ex :: "string \<Rightarrow> int \<Rightarrow> pattern_info" where
  "pinfo_ex n c = \<lparr>name = uni n, cluster_size = Some c, skeleton_examples = [], top_tricks = []\<rparr>"

definition recalled_three :: recalled where
  "recalled_three =
     [(uni ''pattern_1'', pinfo_ex ''Alpha'' 30, 9 / 10),
      (uni ''pattern_2'', pinfo_ex ''Beta'' 5, 8 / 10),
      (uni ''pattern_3'', pinfo_ex ''Gamma'' 20, 7 / 10)]"

section \<open>The orchestrator: \<open>Idea2StoryPipeline.run\<close>\<close>


text \<open>
  \<open>StoryGenerator.generate\<close> and \<open>MultiAgentCritic._single_review\<close> ask the language
  model. The model's answers are oracles: \<open>gen n call\<close> is the outcome of the \<open>n\<close>-th call
  of \<open>generate\<close> for the arguments \<open>call\<close>, and \<open>crit n story\<close> is the answer to the \<open>n\<close>-th
  critique. Every run of the program is the run of the model for some pair of oracles, so
  what holds for all oracles holds for every run.

  A call of \<open>generate\<close> returns a story or raises: \<open>_print_story\<close> iterates over the
  \<open>innovation_claims\<close> of the new story and raises \<open>TypeError\<close> when the answer gave
  \<open>null\<close>, a number or a boolean there; the prompt of the editor slices the \<open>feedback\<close>
  of every review and raises \<open>TypeError\<close> when a feedback is \<open>null\<close>, a number, a
  boolean or a dictionary. The outcome \<open>gen n call\<close> is therefore an exception or a story.
  \<open>review\<close> does not raise: it formats the story into the prompt, and every score is a
  float.

  The orchestrator calls \<open>generate\<close> in two ways: with the pattern, the constraints and
  the injected tricks only (a fresh generation), or with \<open>previous_story\<close>,
  \<open>review_feedback\<close> and \<open>new_tricks_only\<close> in addition (the incremental editor call).
\<close>

datatype generation_call =
    Fresh_Generation pattern_id pattern_info "pystr list option" "pystr list"
  | Editor_Call pattern_id pattern_info "pystr list option" "pystr list"
      story critic_result "pystr list"


type_synonym critic = "nat \<Rightarrow> story \<Rightarrow> llm_review"

fun call_is_fresh :: "generation_call \<Rightarrow> bool" where
  "call_is_fresh (Fresh_Generation pid pinfo constraints tricks) = True"
| "call_is_fresh (Editor_Call pid pinfo constraints tricks prev fb new_only) = False"

fun call_pattern :: "generation_call \<Rightarrow> pattern_id" where
  "call_pattern (Fresh_Generation pid pinfo constraints tricks) = pid"
| "call_pattern (Editor_Call pid pinfo constraints tricks prev fb new_only) = pid"

fun call_injected :: "generation_call \<Rightarrow> pystr list" where
  "call_injected (Fresh_Generation pid pinfo constraints tricks) = tricks"
| "call_injected (Editor_Call pid pinfo constraints tricks prev fb new_only) = tricks"

record refinement_entry =
  entry_iteration :: nat
  entry_issue :: string
  entry_injected_tricks :: "pystr list"

text \<open>
  The variables of \<open>run\<close> that the loop changes, with \<open>refinement_engine.used_patterns\<close>.
  \<open>critic_calls\<close> and \<open>generation_log\<close> are not variables of the source: they count the
  calls of \<open>critic.review\<close> and record the calls of \<open>generate\<close> that returned.
\<close>

record loop_state =
  cur_pattern_id :: pattern_id
  cur_pattern_info :: pattern_info
  injected_tricks :: "pystr list"
  used_patterns :: "pattern_id set"
  review_history :: "critic_result list"
  refinement_history :: "refinement_entry list"
  current_story :: story
  critic_calls :: nat
  generation_log :: "generation_call list"


text \<open>
  \<open>next((r['score'] for r in reviews if r['role'] == 'Novelty'), 0)\<close>: a float, or the
  integer 0.
\<close>

definition novelty_score :: "review_entry list \<Rightarrow> pyfloat" where
  "novelty_score rs =
     (case filter (\<lambda>r. role r = ''Novelty'') rs of [] \<Rightarrow> Finite 0 | r # _ \<Rightarrow> score r)"

text \<open>
  The previous novelty score: that of \<open>review_history[-2]\<close> when the history has two
  entries (the last entry is the current critique), else 0.
\<close>

definition prev_novelty_score :: "critic_result list \<Rightarrow> pyfloat" where
  "prev_novelty_score history =
     (case rev history of
        cur # prev # _ \<Rightarrow> novelty_score (reviews prev)
      | _ \<Rightarrow> Finite 0)"

text \<open>
  The two nested conditions that guard the forced pattern switch. The comparison
  \<open>curr_novelty_score <= prev_novelty_score + 0.5\<close> is one of floats.
\<close>

definition stall_detected :: "nat \<Rightarrow> critic_result \<Rightarrow> critic_result list \<Rightarrow> bool" where
  "stall_detected iterations cr history =
     (iterations \<ge> 1 \<and> main_issue cr = ''novelty'' \<and> iterations \<ge> 2 \<and>
      fle (novelty_score (reviews cr)) (fadd (prev_novelty_score history) (Finite (1 / 2))))"

text \<open>
  \<open>all_unused\<close>: the recalled patterns that the engine has not used, sorted by cluster
  size (999 when missing).
\<close>

definition all_unused :: "recalled \<Rightarrow> pattern_id set \<Rightarrow> (pattern_id \<times> pattern_info) list" where
  "all_unused recalled_patterns used =
     sort_key (\<lambda>(pid, pinfo). get_cluster_size pinfo 999)
       (map (\<lambda>(pid, pinfo, sc). (pid, pinfo))
          (filter (\<lambda>(pid, pinfo, sc). pid \<notin> used) recalled_patterns))"

definition switch_pattern :: "recalled \<Rightarrow> nat \<Rightarrow> critic_result \<Rightarrow> loop_state \<Rightarrow> loop_state" where
  "switch_pattern recalled_patterns iterations cr st =
     (if stall_detected iterations cr (review_history st)
      then (case all_unused recalled_patterns (used_patterns st) of
              [] \<Rightarrow> st
            | (pid, pinfo) # _ \<Rightarrow>
                st\<lparr>cur_pattern_id := pid, cur_pattern_info := pinfo, injected_tricks := []\<rparr>)
      else st)"

text \<open>The accumulation of the new tricks, without duplicates.\<close>

definition accumulate_tricks :: "pystr list \<Rightarrow> pystr list \<Rightarrow> pystr list" where
  "accumulate_tricks new_tricks injected =
     fold (\<lambda>trick acc. if trick \<in> set acc then acc else acc @ [trick]) new_tricks injected"

text \<open>
  Phase 3.5 of one failed iteration, up to the call of \<open>generate\<close>: the state before the
  call and the arguments of the call. \<open>constraints\<close> is \<open>None\<close> throughout the loop.
\<close>

definition plan_refinement ::
  "(pystr \<Rightarrow> pystr) \<Rightarrow> recalled \<Rightarrow> nat \<Rightarrow> critic_result \<Rightarrow> loop_state
     \<Rightarrow> loop_state \<times> generation_call" where
  "plan_refinement lw recalled_patterns iterations cr st0 =
     (let issue = main_issue cr;
          st = switch_pattern recalled_patterns iterations cr st0;
          refined = refine lw recalled_patterns issue (used_patterns st);
          new_tricks = fst refined;
          injected = accumulate_tricks new_tricks (injected_tricks st);
          is_pattern_switch =
            (iterations \<ge> 2 \<and> issue = ''novelty'' \<and> injected = [] \<and> new_tricks \<noteq> []);
          call =
            (if is_pattern_switch
             then Fresh_Generation (cur_pattern_id st) (cur_pattern_info st) None injected
             else Editor_Call (cur_pattern_id st) (cur_pattern_info st) None injected
                    (current_story st) cr new_tricks)
      in (st\<lparr>injected_tricks := injected,
              used_patterns := snd refined,
              refinement_history :=
                refinement_history st @
                  [\<lparr>entry_iteration = iterations, entry_issue = issue,
                    entry_injected_tricks = new_tricks\<rparr>]\<rparr>,
          call))"

text \<open>The state after the call \<open>call\<close> of \<open>generate\<close> has returned the story \<open>s\<close>.\<close>

definition generated :: "loop_state \<Rightarrow> generation_call \<Rightarrow> story \<Rightarrow> loop_state" where
  "generated st call s =
     st\<lparr>current_story := s, generation_log := generation_log st @ [call]\<rparr>"









text \<open>
  The dictionary that \<open>run\<close> returns. \<open>result_critic_calls\<close> and \<open>result_generation_log\<close>
  are the counters of the model, not keys of the dictionary.
\<close>

record pipeline_result =
  success :: bool
  final_story :: story
  result_iterations :: nat
  selected_patterns :: "(slot \<times> pattern_id) list"
  result_review_history :: "critic_result list"
  result_refinement_history :: "refinement_entry list"
  verification_result :: verification_result
  result_critic_calls :: nat
  result_generation_log :: "generation_call list"




text \<open>
  The state in which \<open>run\<close> enters the loop, after the initial generation with the pattern
  \<open>pat\<close> has returned the story \<open>s\<close>, and the pattern that \<open>run\<close> takes for that
  generation: the conservative one when the selection has it, else the first selected.
\<close>

definition initial_state :: "pattern_id \<times> pattern_info \<Rightarrow> story \<Rightarrow> loop_state" where
  "initial_state pat s =
     \<lparr>cur_pattern_id = fst pat, cur_pattern_info = snd pat,
      injected_tricks = [], used_patterns = {}, review_history = [],
      refinement_history = [], current_story = s,
      critic_calls = 0, generation_log = [Fresh_Generation (fst pat) (snd pat) None []]\<rparr>"

definition first_pattern ::
  "(slot \<times> pattern_id \<times> pattern_info) list \<Rightarrow> pattern_id \<times> pattern_info" where
  "first_pattern selected =
     (case map_of selected Conservative of
        Some p \<Rightarrow> p
      | None \<Rightarrow> snd (hd selected))"




text \<open>
  Constant oracles: every critique gives the same three scores, every generation returns
  the same story. \<open>raising_generator k\<close> raises \<open>TypeError\<close> at the call number \<open>k\<close>.
\<close>

definition constant_critic :: "real \<Rightarrow> real \<Rightarrow> real \<Rightarrow> critic" where
  "constant_critic m n s k st r =
     (if reviewer_role r = ''Methodology'' then (Finite m, JString [])
      else if reviewer_role r = ''Novelty'' then (Finite n, JString [])
      else (Finite s, JString []))"




text \<open>
  A critique that fails with the diagnosis \<open>novelty\<close>: 6 for Methodology, 4 for Novelty and
  6 for Storyteller.
\<close>

definition review_646 :: critic_result where
  "review_646 = review (constant_critic 6 4 6 0 story_a)"

text \<open>
  The state after \<open>k\<close> failed iterations of the loop, when every critique is \<open>review_646\<close> and
  every generation returns \<open>story_a\<close>.
\<close>

primrec states_646 :: "recalled \<Rightarrow> nat \<Rightarrow> loop_state" where
  "states_646 rp 0 = initial_state (first_pattern (select rp)) story_a"
| "states_646 rp (Suc k) =
     (let plan = plan_refinement ascii_lower rp (Suc k) review_646
                   ((states_646 rp k)\<lparr>review_history := review_history (states_646 rp k) @ [review_646],
                                      critic_calls := critic_calls (states_646 rp k) + 1\<rparr>)
      in generated (fst plan) (snd plan) story_a)"

declare states_646.simps [simp del]

text \<open>
  What a call of \<open>generate\<close> was: whether it was a fresh generation, its pattern and its
  list of injected tricks.
\<close>

definition call_summary :: "generation_call \<Rightarrow> bool \<times> pattern_id \<times> pystr list" where
  "call_summary c = (call_is_fresh c, call_pattern c, call_injected c)"

text \<open>The instruction that the tail injection gives for a pattern without examples and tricks.\<close>

definition plain_tail_trick :: "string \<Rightarrow> pystr" where
  "plain_tail_trick n = tail_plain_prefix @ uni n @ tail_plain_suffix"

text \<open>A recall list with a single pattern: after its injection no pattern is unused.\<close>

definition recalled_one :: recalled where
  "recalled_one = [(uni ''pattern_1'', pinfo_ex ''Alpha'' 30, 9 / 10)]"

section \<open>Verified properties\<close>

subsection \<open>PatternSelector\<close>

lemma hd_filter_sat:
  "filter P xs = y # ys \<Longrightarrow> P y"
  by (metis filter_eq_Cons_iff)

lemma hd_sort_key_filter_sat:
  assumes "sort_key f (filter P xs) = y # ys"
  shows "P y"
proof -
  have "y \<in> set (sort_key f (filter P xs))" using assms by simp
  then show ?thesis by simp
qed

lemma select_innovative_not_excluded:
  assumes "select_innovative rp ex = Some (p, i)"
  shows "p \<notin> set ex"
proof (cases "filter (\<lambda>(pid, pinfo, sc). pid \<notin> set ex \<and>
                      get_cluster_size pinfo 999 < INNOVATIVE_CLUSTER_SIZE_THRESHOLD) rp")
  case Nil
  with assms obtain q sc ys where
    s: "sort_key (\<lambda>(pid, pinfo, sc). get_cluster_size pinfo 999)
          (filter (\<lambda>(pid, pinfo, sc). pid \<notin> set ex) rp) = (p, q, sc) # ys"
    by (auto simp: select_innovative_def Let_def split: list.splits)
  from hd_sort_key_filter_sat [OF s] show ?thesis by simp
next
  case (Cons c cs)
  obtain p' q sc where c: "c = (p', q, sc)" by (cases c) auto
  from assms Cons c have "p' = p"
    by (simp add: select_innovative_def Let_def)
  with hd_filter_sat [OF Cons] c show ?thesis by simp
qed

lemma select_cross_domain_not_excluded:
  assumes "select_cross_domain rp ex = Some (p, i)"
  shows "Some p \<notin> set ex"
proof -
  from assms obtain q sc ys where
    s: "filter (\<lambda>(pid, pinfo, sc). Some pid \<notin> set ex) rp = (p, q, sc) # ys"
    by (auto simp: select_cross_domain_def Let_def split: list.splits)
  from hd_filter_sat [OF s] show ?thesis by simp
qed

text \<open>
  C7. For every ranked candidate list, \<open>select\<close> returns at most three entries, each
  slot name at most once, the pattern ids of the entries are pairwise distinct, and the
  result is empty for the empty list.
\<close>

theorem select_slots_distinct:
  "length (select rp) \<le> 3 \<and> distinct (map fst (select rp)) \<and>
   distinct (map (\<lambda>(s, pid, pinfo). pid) (select rp)) \<and> select [] = []"
proof -
  have e: "select [] = []"
    by (simp add: select_def select_conservative_def select_innovative_def
        select_cross_domain_def)
  have l: "length (select rp) \<le> 3"
    by (simp add: select_def Let_def split: option.splits)
  have k: "distinct (map fst (select rp))"
    by (simp add: select_def Let_def split: option.splits)
  have d: "distinct (map (\<lambda>(s, pid, pinfo). pid) (select rp))"
    by (auto simp: select_def Let_def split: option.splits
        dest!: select_innovative_not_excluded select_cross_domain_not_excluded)
  from e l k d show ?thesis by simp
qed

subsection \<open>Floats\<close>

lemmas float_eval = round_double_def round_magnitude_def scale_down.simps scale_up.simps
  round_half_even_def pow2_def Let_def

lemma round_half_even_of_int [simp]: "round_half_even (of_int n) = n"
  by (simp add: round_half_even_def)




















subsection \<open>MultiAgentCritic\<close>

lemma reviewer_scores:
  "map score (map (single_review answer) reviewers) = map (\<lambda>r. fst (answer r)) reviewers"
  by (simp add: single_review_def reviewers_def)





subsection \<open>RAGVerifier\<close>

lemma Max_insert_max:
  fixes a :: real
  assumes "finite S"
  shows "Max (insert (max a s) S) = Max (insert a (insert s S))"
proof (cases "S = {}")
  case True
  then show ?thesis by (simp add: max.commute)
next
  case False
  with assms show ?thesis by (simp add: max.assoc)
qed

lemma fold_verify_step:
  "fold (verify_step lw m) ps acc =
     (fst acc @ map (\<lambda>p. \<lparr>sp_paper_id = paper_id p, sp_title = paper_title p,
                            similarity = compute_similarity lw m (method_story p),
                            sp_method = take 100 (method_story p)\<rparr>)
                   (filter (kept lw m) ps),
      Max (insert (snd acc)
             ((\<lambda>p. compute_similarity lw m (method_story p)) ` set (filter (kept lw m) ps))))"
proof (induction ps arbitrary: acc)
  case Nil
  then show ?case by simp
next
  case (Cons p ps)
  show ?case
  proof (cases "kept lw m p")
    case True
    then have s: "verify_step lw m p acc =
        (fst acc @ [\<lparr>sp_paper_id = paper_id p, sp_title = paper_title p,
                            similarity = compute_similarity lw m (method_story p),
                            sp_method = take 100 (method_story p)\<rparr>],
         max (snd acc) (compute_similarity lw m (method_story p)))"
      by (simp add: verify_step_def kept_def Let_def)
    have fin: "finite ((\<lambda>p. compute_similarity lw m (method_story p)) ` set (filter (kept lw m) ps))"
      by simp
    show ?thesis
      using True Max_insert_max [OF fin, of "snd acc" "compute_similarity lw m (method_story p)"]
      by (simp add: Cons.IH s insert_commute del: set_filter)
  next
    case False
    then have "verify_step lw m p acc = acc"
      by (auto simp: verify_step_def kept_def Let_def)
    with False show ?thesis by (simp add: Cons.IH)
  qed
qed

lemma compute_similarity_range:
  "0 \<le> compute_similarity lw a b \<and> compute_similarity lw a b \<le> 1"
proof -
  let ?A = "set (py_split (lw a))" and ?B = "set (py_split (lw b))"
  have le: "card (?A \<inter> ?B) \<le> card (?A \<union> ?B)"
    by (rule card_mono) auto
  show ?thesis
  proof (cases "?A = {} \<or> ?B = {}")
    case True
    then show ?thesis by (auto simp: compute_similarity_def Let_def)
  next
    case False
    then have pos: "0 < card (?A \<union> ?B)" by (simp add: card_gt_0_iff)
    from False have "compute_similarity lw a b = real (card (?A \<inter> ?B)) / real (card (?A \<union> ?B))"
      by (simp add: compute_similarity_def Let_def)
    with le pos show ?thesis by (simp add: divide_le_eq_1)
  qed
qed

lemma compute_similarity_same:
  assumes "py_split (lw t) \<noteq> []"
  shows "compute_similarity lw t t = 1"
proof -
  from assms have "set (py_split (lw t)) \<noteq> {}" by simp
  moreover then have "card (set (py_split (lw t))) \<noteq> 0" by simp
  ultimately show ?thesis by (simp add: compute_similarity_def Let_def)
qed

lemma compute_similarity_disjoint:
  assumes "set (py_split (lw a)) \<inter> set (py_split (lw b)) = {}"
  shows "compute_similarity lw a b = 0"
  using assms by (simp add: compute_similarity_def Let_def)

lemma verify_max:
  "max_similarity (verify lw papers st) =
     Max (insert 0 ((\<lambda>p. compute_similarity lw (method_text (method_skeleton st)) (method_story p)) `
                      set (filter (kept lw (method_text (method_skeleton st))) (take 50 papers))))"
  by (simp add: verify_def Let_def fold_verify_step del: set_filter)

lemma verify_collision:
  "collision_detected (verify lw papers st) \<longleftrightarrow>
     (\<exists>p \<in> set (take 50 papers). method_story p \<noteq> [] \<and>
        compute_similarity lw (method_text (method_skeleton st)) (method_story p)
          > COLLISION_THRESHOLD)"
proof -
  let ?m = "method_text (method_skeleton st)"
  let ?S = "(\<lambda>p. compute_similarity lw ?m (method_story p)) `
              set (filter (kept lw ?m) (take 50 papers))"
  have fin: "finite (insert 0 ?S)" by simp
  have "collision_detected (verify lw papers st) \<longleftrightarrow> Max (insert 0 ?S) > COLLISION_THRESHOLD"
    by (simp add: verify_def Let_def fold_verify_step del: set_filter)
  also have "\<dots> \<longleftrightarrow> (\<exists>x \<in> insert 0 ?S. x > COLLISION_THRESHOLD)"
    using fin by (subst Max_gr_iff) auto
  also have "\<dots> \<longleftrightarrow> (\<exists>p \<in> set (take 50 papers). method_story p \<noteq> [] \<and>
        compute_similarity lw ?m (method_story p) > COLLISION_THRESHOLD)"
    by (auto simp: kept_def COLLISION_THRESHOLD_def)
  finally show ?thesis .
qed

lemma verify_similar_papers:
  "set (similar_papers (verify lw papers st)) \<subseteq>
     (\<lambda>p. \<lparr>sp_paper_id = paper_id p, sp_title = paper_title p,
            similarity = compute_similarity lw (method_text (method_skeleton st)) (method_story p),
            sp_method = take 100 (method_story p)\<rparr>) `
       set (filter (kept lw (method_text (method_skeleton st))) (take 50 papers))"
proof -
  have "set (similar_papers (verify lw papers st)) \<subseteq>
        set (fst (fold (verify_step lw (method_text (method_skeleton st))) (take 50 papers) ([], 0)))"
    using set_take_subset by (fastforce simp: verify_def Let_def)
  then show ?thesis by (simp add: fold_verify_step del: set_filter)
qed

text \<open>
  C10. Every paper that \<open>verify\<close> reports has a similarity above 0.3; the reported
  maximum is the maximum over the recorded papers of the first 50 (0 when there is none);
  when every sampled paper has a similarity of at most 0.3 the reported maximum is 0,
  whatever the overlaps are; and a collision is declared exactly when some sampled paper
  with a method text exceeds the collision threshold, as if nothing had been filtered.
\<close>

theorem verify_filters_low_similarity:
  "(\<forall>sp \<in> set (similar_papers (verify lw papers st)). similarity sp > 3 / 10) \<and>
   max_similarity (verify lw papers st) =
     Max (insert 0 ((\<lambda>p. compute_similarity lw (method_text (method_skeleton st)) (method_story p)) `
                      {p \<in> set (take 50 papers). kept lw (method_text (method_skeleton st)) p})) \<and>
   ((\<forall>p \<in> set (take 50 papers).
        compute_similarity lw (method_text (method_skeleton st)) (method_story p) \<le> 3 / 10)
      \<longrightarrow> max_similarity (verify lw papers st) = 0) \<and>
   (collision_detected (verify lw papers st) \<longleftrightarrow>
      (\<exists>p \<in> set (take 50 papers). method_story p \<noteq> [] \<and>
         compute_similarity lw (method_text (method_skeleton st)) (method_story p)
           > COLLISION_THRESHOLD))"
proof -
  let ?m = "method_text (method_skeleton st)"
  have a: "\<forall>sp \<in> set (similar_papers (verify lw papers st)). similarity sp > 3 / 10"
    using verify_similar_papers [of lw papers st] by (auto simp: kept_def)
  have b: "max_similarity (verify lw papers st) =
     Max (insert 0 ((\<lambda>p. compute_similarity lw ?m (method_story p)) `
                      {p \<in> set (take 50 papers). kept lw ?m p}))"
    by (simp add: verify_max)
  have c: "(\<forall>p \<in> set (take 50 papers). compute_similarity lw ?m (method_story p) \<le> 3 / 10)
      \<longrightarrow> max_similarity (verify lw papers st) = 0"
  proof
    assume h: "\<forall>p \<in> set (take 50 papers). compute_similarity lw ?m (method_story p) \<le> 3 / 10"
    then have "{p \<in> set (take 50 papers). kept lw ?m p} = {}"
      by (fastforce simp: kept_def)
    with b show "max_similarity (verify lw papers st) = 0" by simp
  qed
  from a b c verify_collision [of lw papers st] show ?thesis by blast
qed

lemma similarity_abcd_axyz: "compute_similarity ascii_lower (uni ''a b c d'') (uni ''a x y z'') = 1 / 7"
  by (simp add: compute_similarity_def py_split_def uni_def is_space_def ascii_lower_def Let_def card_insert_if)

theorem verify_filters_low_similarity_witness:
  "compute_similarity ascii_lower (uni ''a b c d'') (uni ''a x y z'') = 1 / 7 \<and>
   max_similarity (verify ascii_lower [paper_a] story_a) = 0 \<and>
   \<not> collision_detected (verify ascii_lower [paper_a] story_a)"
  using verify_filters_low_similarity [of ascii_lower "[paper_a]" story_a] similarity_abcd_axyz
  by (simp add: paper_a_def story_a_def method_text_def COLLISION_THRESHOLD_def)

lemma verify_max_le_1: "max_similarity (verify lw papers st) \<le> 1"
  using compute_similarity_range by (auto simp: verify_max simp del: set_filter)

text \<open>
  C9, amended. A text that has at least one word has similarity 1 with itself, and a paper
  of the first 50 whose method text is the story's method text and has a word makes
  \<open>verify\<close> declare a collision with maximum 1; texts with disjoint sets of words have
  similarity 0, and when all sampled papers are disjoint from the story no collision is
  declared. A text without any word (empty or blank) has similarity 0 with itself.
\<close>

theorem similarity_identical_or_disjoint:
  "(py_split (lw t) \<noteq> [] \<longrightarrow> compute_similarity lw t t = 1) \<and>
   (set (py_split (lw t1)) \<inter> set (py_split (lw t2)) = {} \<longrightarrow> compute_similarity lw t1 t2 = 0) \<and>
   ((\<exists>p \<in> set (take 50 papers).
        method_story p = method_text (method_skeleton st) \<and> method_story p \<noteq> [] \<and>
        py_split (lw (method_story p)) \<noteq> [])
      \<longrightarrow> collision_detected (verify lw papers st) \<and> max_similarity (verify lw papers st) = 1) \<and>
   ((\<forall>p \<in> set (take 50 papers).
        set (py_split (lw (method_text (method_skeleton st)))) \<inter>
        set (py_split (lw (method_story p))) = {})
      \<longrightarrow> \<not> collision_detected (verify lw papers st) \<and> max_similarity (verify lw papers st) = 0)"
proof -
  let ?m = "method_text (method_skeleton st)"
  have c: "(\<exists>p \<in> set (take 50 papers). method_story p = ?m \<and> method_story p \<noteq> [] \<and>
              py_split (lw (method_story p)) \<noteq> [])
      \<longrightarrow> collision_detected (verify lw papers st) \<and> max_similarity (verify lw papers st) = 1"
  proof
    assume "\<exists>p \<in> set (take 50 papers). method_story p = ?m \<and> method_story p \<noteq> [] \<and>
              py_split (lw (method_story p)) \<noteq> []"
    then obtain p where p: "p \<in> set (take 50 papers)" "method_story p = ?m"
      "method_story p \<noteq> []" "py_split (lw (method_story p)) \<noteq> []" by blast
    then have one: "compute_similarity lw ?m (method_story p) = 1"
      using compute_similarity_same [of lw "method_story p"] by simp
    with p have k: "kept lw ?m p" by (simp add: kept_def)
    have "\<exists>q \<in> set (take 50 papers). method_story q \<noteq> [] \<and>
            compute_similarity lw ?m (method_story q) > COLLISION_THRESHOLD"
      using p(1) p(3) one by (intro bexI [of _ p]) (simp_all add: COLLISION_THRESHOLD_def)
    then have col: "collision_detected (verify lw papers st)"
      by (simp only: verify_collision)
    from p(1) k have "p \<in> set (filter (kept lw ?m) (take 50 papers))" by simp
    then have "compute_similarity lw ?m (method_story p)
        \<in> insert 0 ((\<lambda>p. compute_similarity lw ?m (method_story p)) `
                      set (filter (kept lw ?m) (take 50 papers)))"
      by (intro insertI2 imageI)
    then have "compute_similarity lw ?m (method_story p) \<le> max_similarity (verify lw papers st)"
      unfolding verify_max by (intro Max_ge) simp_all
    with one have "1 \<le> max_similarity (verify lw papers st)" by simp
    with verify_max_le_1 [of lw papers st] col
    show "collision_detected (verify lw papers st) \<and> max_similarity (verify lw papers st) = 1"
      by simp
  qed
  have d: "(\<forall>p \<in> set (take 50 papers).
        set (py_split (lw ?m)) \<inter> set (py_split (lw (method_story p))) = {})
      \<longrightarrow> \<not> collision_detected (verify lw papers st) \<and> max_similarity (verify lw papers st) = 0"
  proof
    assume h: "\<forall>p \<in> set (take 50 papers).
        set (py_split (lw ?m)) \<inter> set (py_split (lw (method_story p))) = {}"
    then have z: "\<forall>p \<in> set (take 50 papers). compute_similarity lw ?m (method_story p) = 0"
      by (simp add: compute_similarity_disjoint)
    then have "filter (kept lw ?m) (take 50 papers) = []"
      by (auto simp: kept_def filter_empty_conv)
    then have "max_similarity (verify lw papers st) = 0"
      by (simp add: verify_max)
    moreover from z have "\<not> collision_detected (verify lw papers st)"
      by (subst verify_collision) (auto simp: COLLISION_THRESHOLD_def)
    ultimately show "\<not> collision_detected (verify lw papers st) \<and>
        max_similarity (verify lw papers st) = 0" by simp
  qed
  from c d compute_similarity_same [of lw t] compute_similarity_disjoint [of lw t1 t2]
  show ?thesis by blast
qed

lemma split_gnn: "py_split (ascii_lower (uni ''graph neural network'')) =
   [uni ''graph'', uni ''neural'', uni ''network'']"
  by (simp add: py_split_def uni_def is_space_def ascii_lower_def)

lemma split_ab: "py_split (ascii_lower (uni ''a b c d'')) = [[97], [98], [99], [100]]"
  by (simp add: py_split_def uni_def is_space_def ascii_lower_def)

lemma split_wxyz: "py_split (ascii_lower (uni ''w x y z'')) = [[119], [120], [121], [122]]"
  by (simp add: py_split_def uni_def is_space_def ascii_lower_def)

theorem similarity_identical_or_disjoint_witness:
  "compute_similarity ascii_lower (uni ''graph neural network'') (uni ''graph neural network'') = 1 \<and>
   collision_detected (verify ascii_lower [paper_gnn] story_gnn) \<and>
   max_similarity (verify ascii_lower [paper_gnn] story_gnn) = 1 \<and>
   compute_similarity ascii_lower (uni ''a b c d'') (uni ''w x y z'') = 0 \<and>
   \<not> collision_detected (verify ascii_lower [paper_wxyz] story_a) \<and>
   max_similarity (verify ascii_lower [paper_wxyz] story_a) = 0"
  using similarity_identical_or_disjoint
          [of ascii_lower "uni ''graph neural network''" "uni ''a b c d''" "uni ''w x y z''"
              "[paper_gnn]" story_gnn]
        similarity_identical_or_disjoint
          [of ascii_lower "uni ''graph neural network''" "uni ''a b c d''" "uni ''w x y z''"
              "[paper_wxyz]" story_a]
  by (simp add: split_gnn split_ab split_wxyz paper_gnn_def story_gnn_def paper_wxyz_def
      story_a_def method_text_def) (simp add: uni_def)

text \<open>
  C9 as stated fails: two identical descriptions that consist of a blank have similarity
  0, and no collision is declared.
\<close>

theorem identical_blank_counterexample:
  "compute_similarity ascii_lower (uni '' '') (uni '' '') = 0 \<and>
   compute_similarity ascii_lower (uni '' '') (uni '' '') \<noteq> 1 \<and>
   method_story paper_blank = method_text (method_skeleton story_blank) \<and>
   \<not> collision_detected (verify ascii_lower [paper_blank] story_blank) \<and>
   max_similarity (verify ascii_lower [paper_blank] story_blank) = 0"
  by (simp add: compute_similarity_def py_split_def uni_def is_space_def ascii_lower_def
      verify_def verify_step_def paper_blank_def story_blank_def method_text_def
      COLLISION_THRESHOLD_def Let_def)

subsection \<open>Recall path 1\<close>

lemma map_of_dict_add:
  "map_of (dict_add k v d) k' =
     (if k' = k then Some ((case map_of d k of None \<Rightarrow> 0 | Some x \<Rightarrow> x) + v) else map_of d k')"
  by (induction d) (auto)

lemma fold_dict_add_map_of:
  "map_of (fold (\<lambda>(k, v) d. dict_add k v d) cs d) pid =
     (case map_of d pid of
        None \<Rightarrow> (if contributions_to pid cs = [] then None
                  else Some (foldl (+) (0::real) (contributions_to pid cs)))
      | Some x \<Rightarrow> Some (foldl (+) x (contributions_to pid cs)))"
proof (induction cs arbitrary: d)
  case Nil
  then show ?case by (simp add: contributions_to_def split: option.splits)
next
  case (Cons c cs)
  obtain k v where c: "c = (k, v)" by (cases c)
  show ?case
    by (simp add: c Cons.IH map_of_dict_add contributions_to_def split: option.splits)
qed

lemma foldl_plus_sum_list: "foldl (+) (x::real) xs = x + sum_list xs"
  by (induction xs arbitrary: x) (simp_all add: add.assoc)

lemma accumulate_empty:
  "map_of (fold (\<lambda>(k, v) d. dict_add k v d) cs []) pid =
     (if contributions_to pid cs = [] then None
      else Some (sum_list (contributions_to pid cs)))"
  by (simp add: fold_dict_add_map_of foldl_plus_sum_list)

lemma fold_uses_pattern:
  fixes xs :: "(pystr \<times> edge_data) list" and d :: "(pystr \<times> real) list"
  shows "fold (\<lambda>(successor, ed) sc.
                   if relation ed = ''uses_pattern''
                   then dict_add successor
                          (s * (case quality ed of None \<Rightarrow> 1 / 2 | Some q \<Rightarrow> q)) sc
                   else sc) xs d =
        fold (\<lambda>(k, v) d. dict_add k v d)
          (map (\<lambda>(successor, ed). (successor, s * (case quality ed of None \<Rightarrow> 1 / 2 | Some q \<Rightarrow> q)))
             (filter (\<lambda>(successor, ed). relation ed = ''uses_pattern'') xs)) d"
  by (induction xs arbitrary: d) auto

lemma path1_paper_fold:
  "path1_paper G s pid d = fold (\<lambda>(k, v) d. dict_add k v d) (paper_contributions G s pid) d"
  by (simp add: path1_paper_def paper_contributions_def fold_uses_pattern)

lemma fold_concat_map:
  assumes "\<And>x d. f x d = fold g (h x) d"
  shows "fold f xs d = fold g (concat (map h xs)) d"
  using assms by (induction xs arbitrary: d) simp_all

lemma path1_idea_fold:
  "path1_idea G ideas ti d = fold (\<lambda>(k, v) d. dict_add k v d) (idea_contributions G ideas ti) d"
proof (cases "index_by idea_id ideas (fst ti)")
  case None
  then show ?thesis by (simp add: path1_idea_def idea_contributions_def)
next
  case (Some i)
  have "fold (path1_paper G (snd ti)) (source_paper_ids i) d =
        fold (\<lambda>(k, v) d. dict_add k v d)
          (concat (map (paper_contributions G (snd ti)) (source_paper_ids i))) d"
    by (rule fold_concat_map, rule path1_paper_fold)
  with Some show ?thesis by (simp add: path1_idea_def idea_contributions_def)
qed

lemma recall_path1_fold:
  "recall_path1_similar_ideas lw ideas G user_idea =
     fold (\<lambda>(k, v) d. dict_add k v d) (path1_contributions lw ideas G user_idea) []"
  unfolding recall_path1_similar_ideas_def path1_contributions_def Let_def
  by (rule fold_concat_map, rule path1_idea_fold)

lemma fold_dict_add_const:
  fixes xs :: "pystr list" and d :: "(pystr \<times> real) list"
  shows "fold (\<lambda>pid sc. dict_add pid s sc) xs d =
         fold (\<lambda>(k, v) d. dict_add k v d) (map (\<lambda>pid. (pid, s)) xs) d"
  by (induction xs arbitrary: d) auto

lemma simple_path1_idea_fold:
  "simple_path1_idea ideas ti d =
     fold (\<lambda>(k, v) d. dict_add k v d) (simple_idea_contributions ideas ti) d"
  by (simp add: simple_path1_idea_def simple_idea_contributions_def fold_dict_add_const
      split: option.splits)

lemma simple_path1_fold:
  "simple_path1 lw ideas user_idea =
     fold (\<lambda>(k, v) d. dict_add k v d) (simple_path1_contributions lw ideas user_idea) []"
  unfolding simple_path1_def simple_path1_contributions_def Let_def
  by (rule fold_concat_map, rule simple_path1_idea_fold)

lemma paper_contributions_keys:
  "pid \<in> fst ` set (paper_contributions G s paper) \<longleftrightarrow>
     (has_node G paper \<and>
      (\<exists>ed. (pid, ed) \<in> set (successors G paper) \<and> relation ed = ''uses_pattern''))"
  by (force simp: paper_contributions_def image_iff)

lemma idea_contributions_keys:
  "pid \<in> fst ` set (idea_contributions G ideas ti) \<longleftrightarrow>
     (\<exists>i. index_by idea_id ideas (fst ti) = Some i \<and>
        (\<exists>paper \<in> set (source_paper_ids i). has_node G paper \<and>
           (\<exists>ed. (pid, ed) \<in> set (successors G paper) \<and> relation ed = ''uses_pattern'')))"
proof (cases "index_by idea_id ideas (fst ti)")
  case None
  then show ?thesis by (simp add: idea_contributions_def)
next
  case (Some i)
  have "pid \<in> fst ` set (concat (map (paper_contributions G (snd ti)) (source_paper_ids i))) \<longleftrightarrow>
        (\<exists>paper \<in> set (source_paper_ids i). pid \<in> fst ` set (paper_contributions G (snd ti) paper))"
    by (simp add: image_UN)
  with Some show ?thesis
    by (simp add: idea_contributions_def paper_contributions_keys)
qed

lemma contributions_reachable:
  "contributions_to pid (path1_contributions lw ideas G user_idea) \<noteq> [] \<longleftrightarrow>
     (\<exists>ti \<in> set (top_similar_ideas (compute_text_similarity lw) PATH1_TOP_K_IDEAS ideas user_idea).
        \<exists>i. index_by idea_id ideas (fst ti) = Some i \<and>
          (\<exists>paper \<in> set (source_paper_ids i). has_node G paper \<and>
             (\<exists>ed. (pid, ed) \<in> set (successors G paper) \<and> relation ed = ''uses_pattern'')))"
  (is "?L \<longleftrightarrow> ?R")
proof -
  have "?L \<longleftrightarrow> pid \<in> fst ` set (path1_contributions lw ideas G user_idea)"
    by (auto simp: contributions_to_def filter_empty_conv image_iff)
  also have "\<dots> \<longleftrightarrow>
     (\<exists>ti \<in> set (top_similar_ideas (compute_text_similarity lw) PATH1_TOP_K_IDEAS ideas user_idea).
        pid \<in> fst ` set (idea_contributions G ideas ti))"
    by (simp add: path1_contributions_def image_UN)
  also have "\<dots> \<longleftrightarrow> ?R"
    by (simp only: idea_contributions_keys)
  finally show ?thesis .
qed

text \<open>
  C6, amended. In \<open>RecallSystem._recall_path1_similar_ideas\<close> the score of a pattern is the
  sum of \<open>similarity * quality\<close> over the \<open>uses_pattern\<close> edges that lead to it from the
  source papers (nodes of the graph) of the kept ideas, duplicates summed; a pattern has a
  score exactly when such an edge exists. In the simplified variant of simple_recall_demo.py
  the score of a pattern is the sum of the similarities of the kept ideas, once for each
  occurrence of the pattern in the idea's own \<open>pattern_ids\<close>: no edge and no quality enters.
\<close>

theorem path1_scores_are_contribution_sums:
  "map_of (recall_path1_similar_ideas lw ideas G user_idea) pid =
     (if contributions_to pid (path1_contributions lw ideas G user_idea) = [] then None
      else Some (sum_list (contributions_to pid (path1_contributions lw ideas G user_idea)))) \<and>
   (contributions_to pid (path1_contributions lw ideas G user_idea) \<noteq> [] \<longleftrightarrow>
     (\<exists>ti \<in> set (top_similar_ideas (compute_text_similarity lw) PATH1_TOP_K_IDEAS ideas user_idea).
        \<exists>i. index_by idea_id ideas (fst ti) = Some i \<and>
          (\<exists>paper \<in> set (source_paper_ids i). has_node G paper \<and>
             (\<exists>ed. (pid, ed) \<in> set (successors G paper) \<and> relation ed = ''uses_pattern'')))) \<and>
   map_of (simple_path1 lw ideas user_idea) pid =
     (if contributions_to pid (simple_path1_contributions lw ideas user_idea) = [] then None
      else Some (sum_list (contributions_to pid (simple_path1_contributions lw ideas user_idea))))"
  using contributions_reachable [of pid lw ideas G user_idea]
  by (simp only: recall_path1_fold simple_path1_fold accumulate_empty)

lemma sim_words_gnn:
  "compute_text_similarity ascii_lower query_gnn (uni ''graph neural network'') = 3 / 5"
  by (simp add: compute_text_similarity_def compute_similarity_def py_split_def uni_def
      is_space_def ascii_lower_def Let_def card_insert_if query_gnn_def)

lemma sim_chars_gnn:
  "compute_similarity_chars ascii_lower query_gnn (uni ''graph neural network'') = 13 / 15"
  by (simp add: compute_similarity_chars_def uni_def ascii_lower_def Let_def card_insert_if
      query_gnn_def)

lemma top_words_gnn:
  "top_similar_ideas (compute_text_similarity ascii_lower) PATH1_TOP_K_IDEAS [idea_gnn] query_gnn
     = [(uni ''idea_0'', 3 / 5)]"
  by (simp add: top_similar_ideas_def idea_gnn_def sim_words_gnn PATH1_TOP_K_IDEAS_def)

lemma top_chars_gnn:
  "top_similar_ideas (compute_similarity_chars ascii_lower) TOP_K_IDEAS [idea_gnn] query_gnn
     = [(uni ''idea_0'', 13 / 15)]"
  by (simp add: top_similar_ideas_def idea_gnn_def sim_chars_gnn TOP_K_IDEAS_def)

lemma path1_contributions_gnn:
  "path1_contributions ascii_lower [idea_gnn] graph_gnn query_gnn =
     [(uni ''pattern_1'', 3 / 5 * (4 / 5)), (uni ''pattern_1'', 3 / 5 * (1 / 2))]"
  unfolding path1_contributions_def top_words_gnn
  by (simp add: idea_contributions_def index_by_def
      idea_gnn_def paper_contributions_def has_node_def successors_def graph_gnn_def
      uses_pattern_edge_def uni_def)

text \<open>
  The scenario: the pattern used by both source papers scores 0.6 * 0.8 + 0.6 * 0.5, and a
  pattern that no source paper uses has no score.
\<close>

theorem path1_scores_example:
  "map_of (recall_path1_similar_ideas ascii_lower [idea_gnn] graph_gnn query_gnn) (uni ''pattern_1'')
     = Some (39 / 50) \<and>
   map_of (recall_path1_similar_ideas ascii_lower [idea_gnn] graph_gnn query_gnn) (uni ''pattern_9'')
     = None"
  using path1_scores_are_contribution_sums [of ascii_lower "[idea_gnn]" graph_gnn query_gnn "uni ''pattern_1''"]
        path1_scores_are_contribution_sums [of ascii_lower "[idea_gnn]" graph_gnn query_gnn "uni ''pattern_9''"]
  by (simp add: path1_contributions_gnn contributions_to_def uni_def)

text \<open>
  C6 as stated fails on simple_recall_demo.py: the reachable pattern scores the similarity
  13/15, not the sum of similarity times quality over its two edges, and a pattern that is
  no node of the graph scores as well.
\<close>

theorem simple_path1_counterexample:
  "compute_similarity_chars ascii_lower query_gnn (description idea_gnn) = 13 / 15 \<and>
   paper_contributions graph_gnn (13 / 15) (uni ''paper_0'') = [(uni ''pattern_1'', 13 / 15 * (4 / 5))] \<and>
   paper_contributions graph_gnn (13 / 15) (uni ''paper_1'') = [(uni ''pattern_1'', 13 / 15 * (1 / 2))] \<and>
   map_of (simple_path1 ascii_lower [idea_gnn] query_gnn) (uni ''pattern_1'') = Some (13 / 15) \<and>
   (13 / 15 :: real) \<noteq> 13 / 15 * (4 / 5) + 13 / 15 * (1 / 2) \<and>
   \<not> has_node graph_gnn (uni ''pattern_9'') \<and>
   map_of (simple_path1 ascii_lower [idea_gnn] query_gnn) (uni ''pattern_9'') = Some (13 / 15)"
proof -
  have s: "simple_path1 ascii_lower [idea_gnn] query_gnn =
             [(uni ''pattern_1'', 13 / 15), (uni ''pattern_9'', 13 / 15)]"
    unfolding simple_path1_def top_chars_gnn
    by (simp add: simple_path1_idea_def index_by_def idea_gnn_def uni_def)
  have p: "paper_contributions graph_gnn (13 / 15) (uni ''paper_0'') = [(uni ''pattern_1'', 13 / 15 * (4 / 5))]"
    "paper_contributions graph_gnn (13 / 15) (uni ''paper_1'') = [(uni ''pattern_1'', 13 / 15 * (1 / 2))]"
    "\<not> has_node graph_gnn (uni ''pattern_9'')"
    by (simp_all add: paper_contributions_def has_node_def successors_def graph_gnn_def
        uses_pattern_edge_def uni_def)
  have d: "compute_similarity_chars ascii_lower query_gnn (description idea_gnn) = 13 / 15"
    by (simp add: idea_gnn_def sim_chars_gnn)
  show ?thesis
    unfolding s by (simp add: p d)
qed

subsection \<open>Fusion\<close>

lemma sorted_desc_sort_key:
  fixes xs :: "('a \<times> real) list"
  shows "sorted_wrt (\<ge>) (map snd (sort_key (\<lambda>x. - snd x) xs))"
proof -
  have "sorted (map (\<lambda>x. - snd x) (sort_key (\<lambda>x. - snd x) xs))"
    by (rule sorted_sort_key)
  then show ?thesis
    by (simp add: sorted_wrt_map)
qed

text \<open>
  C5. Whatever the order in which the set of pattern ids is visited, the fused ranking is
  sorted by non-increasing score, has at most \<open>k\<close> entries (\<open>FINAL_TOP_K\<close> = 10), lists no
  pattern twice, and the score of each listed pattern is the weighted sum of its three path
  scores (0 for a path that does not list it); \<open>recall\<close> returns this ranking with the
  pattern nodes attached.
\<close>

theorem fuse_sorted_bounded:
  assumes "iterates order (dict_keys p1 \<union> dict_keys p2 \<union> dict_keys p3)"
  shows "sorted_wrt (\<ge>) (map snd (fuse w k order p1 p2 p3)) \<and>
         length (fuse w k order p1 p2 p3) \<le> k \<and>
         (\<forall>(pid, s) \<in> set (fuse w k order p1 p2 p3).
            s = PATH1_WEIGHT w * dict_get p1 pid 0 + PATH2_WEIGHT w * dict_get p2 pid 0
                + PATH3_WEIGHT w * dict_get p3 pid 0 \<and>
            pid \<in> dict_keys p1 \<union> dict_keys p2 \<union> dict_keys p3) \<and>
         distinct (map fst (fuse w k order p1 p2 p3)) \<and>
         map (\<lambda>(pid, pinfo, s). (pid, s)) (recall_results pmap w k order p1 p2 p3)
           = fuse w k order p1 p2 p3"
proof -
  let ?fs = "final_scores w order p1 p2 p3"
  let ?ranked = "sort_key (\<lambda>x. - snd x) ?fs"
  have fuse: "fuse w k order p1 p2 p3 = take k ?ranked"
    by (simp add: fuse_def)
  have a: "sorted_wrt (\<ge>) (map snd (take k ?ranked))"
    using sorted_desc_sort_key [of ?fs] by (simp add: take_map [symmetric] sorted_wrt_take)
  have b: "length (take k ?ranked) \<le> k" by simp
  have keys: "map fst ?fs = order"
    by (simp add: final_scores_def Let_def o_def)
  have c: "\<forall>(pid, s) \<in> set (take k ?ranked).
            s = PATH1_WEIGHT w * dict_get p1 pid 0 + PATH2_WEIGHT w * dict_get p2 pid 0
                + PATH3_WEIGHT w * dict_get p3 pid 0 \<and>
            pid \<in> dict_keys p1 \<union> dict_keys p2 \<union> dict_keys p3"
  proof -
    have "set (take k ?ranked) \<subseteq> set ?fs"
      using set_take_subset [of k ?ranked] by simp
    moreover have "\<forall>(pid, s) \<in> set ?fs.
            s = PATH1_WEIGHT w * dict_get p1 pid 0 + PATH2_WEIGHT w * dict_get p2 pid 0
                + PATH3_WEIGHT w * dict_get p3 pid 0 \<and>
            pid \<in> dict_keys p1 \<union> dict_keys p2 \<union> dict_keys p3"
      using assms by (auto simp: final_scores_def Let_def iterates_def mult.commute)
    ultimately show ?thesis by blast
  qed
  have d: "distinct (map fst (take k ?ranked))"
  proof -
    from keys assms have "distinct (map fst ?fs)" by (simp add: iterates_def)
    then have "distinct ?fs \<and> inj_on fst (set ?fs)" by (simp add: distinct_map)
    then have "distinct (map fst ?ranked)" by (simp add: distinct_map)
    then show ?thesis by (simp add: take_map [symmetric] distinct_take)
  qed
  have e: "map (\<lambda>(pid, pinfo, s). (pid, s)) (recall_results pmap w k order p1 p2 p3)
           = fuse w k order p1 p2 p3"
    by (simp add: recall_results_def o_def split_beta)
  from a b c d e show ?thesis by (simp only: fuse)
qed

lemma iterates_ex:
  "iterates order_ex (dict_keys path1_ex \<union> dict_keys path2_ex \<union> dict_keys path3_ex)"
  by (auto simp: iterates_def order_ex_def dict_keys_def path1_ex_def path2_ex_def path3_ex_def
      uni_def)

lemma fuse_ex_recall:
  "fuse RecallConfig_weights FINAL_TOP_K order_ex path1_ex path2_ex path3_ex =
     [(uni ''pattern_3'', 3 / 5), (uni ''pattern_2'', 1 / 2), (uni ''pattern_1'', 2 / 5)]"
  by (simp add: fuse_def final_scores_def RecallConfig_weights_def FINAL_TOP_K_def order_ex_def
      path1_ex_def path2_ex_def path3_ex_def dict_get_def uni_def)

lemma fuse_ex_simple:
  "fuse simple_demo_weights 2 order_ex path1_ex path2_ex path3_ex =
     [(uni ''pattern_3'', 4 / 5), (uni ''pattern_1'', 2 / 5)]"
  by (simp add: fuse_def final_scores_def simple_demo_weights_def order_ex_def
      path1_ex_def path2_ex_def path3_ex_def dict_get_def uni_def)

theorem fuse_sorted_bounded_witness:
  "iterates order_ex (dict_keys path1_ex \<union> dict_keys path2_ex \<union> dict_keys path3_ex) \<and>
   fuse RecallConfig_weights FINAL_TOP_K order_ex path1_ex path2_ex path3_ex =
     [(uni ''pattern_3'', 3 / 5), (uni ''pattern_2'', 1 / 2), (uni ''pattern_1'', 2 / 5)] \<and>
   sorted_wrt (\<ge>) (map snd (fuse RecallConfig_weights FINAL_TOP_K order_ex path1_ex path2_ex path3_ex)) \<and>
   length (fuse RecallConfig_weights FINAL_TOP_K order_ex path1_ex path2_ex path3_ex) \<le> FINAL_TOP_K \<and>
   fuse simple_demo_weights 2 order_ex path1_ex path2_ex path3_ex =
     [(uni ''pattern_3'', 4 / 5), (uni ''pattern_1'', 2 / 5)] \<and>
   sorted_wrt (\<ge>) (map snd (fuse simple_demo_weights 2 order_ex path1_ex path2_ex path3_ex)) \<and>
   length (fuse simple_demo_weights 2 order_ex path1_ex path2_ex path3_ex) \<le> 2"
  using fuse_sorted_bounded [OF iterates_ex, of RecallConfig_weights FINAL_TOP_K]
        fuse_sorted_bounded [OF iterates_ex, of simple_demo_weights 2]
        iterates_ex fuse_ex_recall fuse_ex_simple
  by simp

subsection \<open>The \<open>belongs_to\<close> weights\<close>

lemma sum_dict_add:
  fixes d :: "('k \<times> nat) list"
  shows "sum_list (map snd (dict_add k v d)) = sum_list (map snd d) + v"
  by (induction d) auto

lemma keys_dict_add:
  "map fst (dict_add k v d) = (if k \<in> fst ` set d then map fst d else map fst d @ [k])"
  by (induction d) (force+)

lemma map_of_dict_add_nat:
  fixes d :: "('k \<times> nat) list"
  shows "map_of (dict_add k v d) k' =
     (if k' = k then Some ((case map_of d k of None \<Rightarrow> 0 | Some x \<Rightarrow> x) + v) else map_of d k')"
  by (induction d) auto

lemma tally_sum: "sum_list (map snd (tally xs d)) = sum_list (map snd d) + length xs"
  by (induction xs arbitrary: d) (simp_all add: tally_def sum_dict_add)

lemma tally_distinct: "distinct (map fst d) \<Longrightarrow> distinct (map fst (tally xs d))"
  by (induction xs arbitrary: d) (simp_all add: tally_def keys_dict_add)

lemma tally_map_of:
  "distinct (map fst d) \<Longrightarrow>
   map_of (tally xs d) k =
     (if k \<in> set xs \<or> k \<in> fst ` set d
      then Some ((case map_of d k of None \<Rightarrow> 0 | Some x \<Rightarrow> x) + count_list xs k)
      else None)"
proof (induction xs arbitrary: d)
  case Nil
  then show ?case by (auto simp: tally_def map_of_eq_None_iff split: option.splits)
next
  case (Cons x xs)
  have d: "distinct (map fst (dict_add x 1 d))"
    using Cons.prems by (simp add: keys_dict_add)
  have t: "tally (x # xs) d = tally xs (dict_add x 1 d)" by (simp add: tally_def)
  have k: "fst ` set (dict_add x 1 d) = insert x (fst ` set d)"
  proof -
    have "fst ` set (dict_add x 1 d) = set (map fst (dict_add x 1 d))" by simp
    also have "\<dots> = insert x (fst ` set d)"
      unfolding keys_dict_add by auto
    finally show ?thesis .
  qed
  show ?case
    unfolding t Cons.IH [OF d] k
    by (auto simp: map_of_dict_add_nat split: option.splits)
qed

lemma tally_append: "tally (xs @ ys) d = tally ys (tally xs d)"
  by (simp add: tally_def)

lemma count_labels_tally:
  "fold (\<lambda>dname dc.
             case domain_name_to_id doms dname of
               None \<Rightarrow> dc
             | Some did \<Rightarrow> if did = [] then dc else dict_add did 1 dc) names dc =
   tally (concat (map (\<lambda>dname. case domain_name_to_id doms dname of
                              None \<Rightarrow> []
                            | Some did \<Rightarrow> if did = [] then [] else [did]) names)) dc"
  by (induction names arbitrary: dc) (auto simp: tally_def split: option.splits)

lemma count_paper_domains_tally:
  "count_paper_domains doms p dc = tally (paper_domain_ids doms p) dc"
  by (simp add: count_paper_domains_def paper_domain_ids_def count_labels_tally)

lemma count_sources_tally:
  "fold (\<lambda>pid dc.
             case index_by paper_id papers pid of
               None \<Rightarrow> dc
             | Some p \<Rightarrow> count_paper_domains doms p dc) pids dc =
   tally (concat (map (source_domain_ids doms papers) pids)) dc"
proof (induction pids arbitrary: dc)
  case Nil
  then show ?case by (simp add: tally_def)
next
  case (Cons pid pids)
  show ?case
    by (cases "index_by paper_id papers pid")
       (simp_all add: Cons.IH source_domain_ids_def tally_append count_paper_domains_tally
          tally_def)
qed

lemma idea_domain_counts_tally:
  "idea_domain_counts doms papers i = tally (resolved_domains doms papers i) []"
  by (simp add: idea_domain_counts_def resolved_domains_def count_sources_tally)

lemma tally_in:
  assumes "(k, c) \<in> set (tally xs [])"
  shows "c = count_list xs k \<and> k \<in> set xs"
proof -
  have "distinct (map fst (tally xs ([] :: ('a \<times> nat) list)))"
    by (rule tally_distinct) simp
  with assms have "map_of (tally xs []) k = Some c" by simp
  then show ?thesis
    by (simp add: tally_map_of split: if_splits)
qed

lemma distinct_count_le_1: "distinct ys \<Longrightarrow> count_list ys k \<le> 1"
  by (induction ys) (auto simp: count_list_0_iff)

lemma count_list_concat_le:
  assumes "\<forall>x \<in> set xs. distinct (f x)"
  shows "count_list (concat (map f xs)) k \<le> length xs"
  using assms
proof (induction xs)
  case Nil
  then show ?case by simp
next
  case (Cons x xs)
  then have "distinct (f x)" by simp
  then have "count_list (f x) k \<le> 1" by (rule distinct_count_le_1)
  with Cons show ?case by simp
qed

lemma sum_weights:
  fixes cs :: "(pystr \<times> nat) list"
  shows "sum_list (map (\<lambda>(did, count). real count / t) cs) = real (sum_list (map snd cs)) / t"
  by (induction cs) (auto simp: add_divide_distrib)

text \<open>
  C3, amended. For an idea with a non-empty source-paper list, each \<open>belongs_to\<close> edge
  goes to a different domain and its weight is the number of domain labels of the idea's
  source papers that resolve to that domain, divided by the number of source papers; it is
  positive. The weights sum to the number of all resolved labels divided by the number of
  source papers. No weight exceeds 1 when no source paper names a domain twice; and when
  every source paper is known and has exactly one label that names a domain, the weights
  lie in (0, 1] and sum to 1.
\<close>

theorem belongs_to_weights:
  assumes "source_paper_ids i \<noteq> []"
  shows
    "(\<forall>(src, did, ed) \<in> set (belongs_to_edges doms papers i).
        src = idea_id i \<and> relation ed = ''belongs_to'' \<and>
        did \<in> set (resolved_domains doms papers i) \<and>
        get_weight ed = real (count_list (resolved_domains doms papers i) did)
                          / real (length (source_paper_ids i)) \<and>
        0 < get_weight ed) \<and>
     distinct (map (\<lambda>(src, did, ed). did) (belongs_to_edges doms papers i)) \<and>
     sum_list (edge_weights (belongs_to_edges doms papers i)) =
       real (length (resolved_domains doms papers i)) / real (length (source_paper_ids i)) \<and>
     ((\<forall>pid \<in> set (source_paper_ids i). distinct (source_domain_ids doms papers pid))
        \<longrightarrow> (\<forall>w \<in> set (edge_weights (belongs_to_edges doms papers i)). w \<le> 1)) \<and>
     ((\<forall>pid \<in> set (source_paper_ids i). length (source_domain_ids doms papers pid) = 1)
        \<longrightarrow> sum_list (edge_weights (belongs_to_edges doms papers i)) = 1 \<and>
            (\<forall>w \<in> set (edge_weights (belongs_to_edges doms papers i)). 0 < w \<and> w \<le> 1))"
proof -
  let ?rs = "resolved_domains doms papers i"
  let ?t = "length (source_paper_ids i)"
  let ?es = "belongs_to_edges doms papers i"
  have tpos: "0 < ?t" using assms by simp
  have es: "?es = map (\<lambda>(did, count).
                     (idea_id i, did,
                      \<lparr>relation = ''belongs_to'', quality = None,
                       weight = Some (real count / real ?t),
                       paper_count = Some count, total_papers = Some ?t\<rparr>))
                (tally ?rs [])"
    using assms by (simp add: belongs_to_edges_def idea_domain_counts_tally Let_def)
  have a: "\<forall>(src, did, ed) \<in> set ?es.
        src = idea_id i \<and> relation ed = ''belongs_to'' \<and> did \<in> set ?rs \<and>
        get_weight ed = real (count_list ?rs did) / real ?t \<and> 0 < get_weight ed"
  proof -
    have "src = idea_id i \<and> relation ed = ''belongs_to'' \<and> did \<in> set ?rs \<and>
        get_weight ed = real (count_list ?rs did) / real ?t \<and> 0 < get_weight ed"
      if "(src, did, ed) \<in> set ?es" for src did ed
    proof -
      from that obtain c where c: "(did, c) \<in> set (tally ?rs [])" and
        e: "src = idea_id i" "ed = \<lparr>relation = ''belongs_to'', quality = None,
                       weight = Some (real c / real ?t),
                       paper_count = Some c, total_papers = Some ?t\<rparr>"
        unfolding es by auto
      from tally_in [OF c] have cc: "c = count_list ?rs did" "did \<in> set ?rs" by simp_all
      then have "0 < c" using count_list_0_iff [of ?rs did] by simp
      with e cc tpos show ?thesis by (simp add: get_weight_def)
    qed
    then show ?thesis by blast
  qed
  have b: "distinct (map (\<lambda>(src, did, ed). did) ?es)"
  proof -
    have "map (\<lambda>(src, did, ed). did) ?es = map fst (tally ?rs [])"
      unfolding es by (simp add: o_def split_beta)
    moreover have "distinct (map fst (tally ?rs ([] :: (pystr \<times> nat) list)))"
      by (rule tally_distinct) simp
    ultimately show ?thesis by simp
  qed
  have w: "edge_weights ?es = map (\<lambda>(did, count). real count / real ?t) (tally ?rs [])"
    unfolding es by (simp add: edge_weights_def get_weight_def o_def split_beta)
  have c: "sum_list (edge_weights ?es) = real (length ?rs) / real ?t"
    unfolding w by (simp add: sum_weights tally_sum)
  have wle: "\<forall>w \<in> set (edge_weights ?es). w \<le> 1"
    if h: "\<forall>pid \<in> set (source_paper_ids i). distinct (source_domain_ids doms papers pid)"
  proof
    fix x assume "x \<in> set (edge_weights ?es)"
    then obtain did c where dc: "(did, c) \<in> set (tally ?rs [])" and x: "x = real c / real ?t"
      unfolding w by auto
    from tally_in [OF dc] have "c = count_list ?rs did" by simp
    also have "\<dots> \<le> ?t"
      unfolding resolved_domains_def using h by (rule count_list_concat_le)
    finally show "x \<le> 1" using x tpos by simp
  qed
  have wpos: "\<forall>w \<in> set (edge_weights ?es). 0 < w"
    using a by (auto simp: edge_weights_def)
  have d: "(\<forall>pid \<in> set (source_paper_ids i). length (source_domain_ids doms papers pid) = 1)
        \<longrightarrow> sum_list (edge_weights ?es) = 1 \<and> (\<forall>w \<in> set (edge_weights ?es). 0 < w \<and> w \<le> 1)"
  proof
    assume h: "\<forall>pid \<in> set (source_paper_ids i). length (source_domain_ids doms papers pid) = 1"
    have "length (concat (map (source_domain_ids doms papers) pids)) = length pids"
      if "\<forall>pid \<in> set pids. length (source_domain_ids doms papers pid) = 1" for pids
      using that by (induction pids) simp_all
    with h have "length ?rs = ?t" by (simp add: resolved_domains_def)
    with c tpos have s1: "sum_list (edge_weights ?es) = 1" by simp
    have "distinct xs" if "length xs = 1" for xs :: "pystr list"
      using that by (cases xs) simp_all
    with h have "\<forall>pid \<in> set (source_paper_ids i). distinct (source_domain_ids doms papers pid)"
      by blast
    from wle [OF this] wpos s1
    show "sum_list (edge_weights ?es) = 1 \<and> (\<forall>w \<in> set (edge_weights ?es). 0 < w \<and> w \<le> 1)"
      by blast
  qed
  from a b c d wle show ?thesis by blast
qed

lemma source_domain_ids_ex:
  "source_domain_ids domains_ex papers_ex (uni ''paper_7'') = [uni ''domain_0'', uni ''domain_1'']"
  "source_domain_ids domains_ex papers_ex (uni ''paper_8'') = [uni ''domain_1'']"
  "source_domain_ids domains_ex papers_ex (uni ''paper_9'') = [uni ''domain_0'']"
  by (simp_all add: source_domain_ids_def paper_domain_ids_def domain_name_to_id_def index_by_def
      domains_ex_def papers_ex_def paper_two_domains_def paper_one_domain_def paper_nlp_def uni_def)

lemma edges_single_domains:
  "map (\<lambda>(src, did, ed). (src, did, get_weight ed))
     (belongs_to_edges domains_ex papers_ex idea_single_domains) =
     [(uni ''idea_2'', uni ''domain_1'', 1 / 2), (uni ''idea_2'', uni ''domain_0'', 1 / 2)]"
  by (simp add: belongs_to_edges_def idea_domain_counts_def count_paper_domains_def
      domain_name_to_id_def index_by_def domains_ex_def papers_ex_def paper_two_domains_def
      paper_one_domain_def paper_nlp_def idea_single_domains_def get_weight_def uni_def)

theorem belongs_to_weights_witness:
  "source_paper_ids idea_single_domains \<noteq> [] \<and>
   map (\<lambda>(src, did, ed). (src, did, get_weight ed))
     (belongs_to_edges domains_ex papers_ex idea_single_domains) =
     [(uni ''idea_2'', uni ''domain_1'', 1 / 2), (uni ''idea_2'', uni ''domain_0'', 1 / 2)] \<and>
   sum_list (edge_weights (belongs_to_edges domains_ex papers_ex idea_single_domains)) = 1"
proof -
  have n: "source_paper_ids idea_single_domains \<noteq> []"
    by (simp add: idea_single_domains_def)
  have h: "\<forall>pid \<in> set (source_paper_ids idea_single_domains).
             length (source_domain_ids domains_ex papers_ex pid) = 1"
    by (simp add: idea_single_domains_def source_domain_ids_ex)
  from belongs_to_weights [OF n, of domains_ex papers_ex] h
  have "sum_list (edge_weights (belongs_to_edges domains_ex papers_ex idea_single_domains)) = 1"
    by blast
  with n edges_single_domains show ?thesis by blast
qed

text \<open>
  C3 as stated fails: an idea whose only source paper lies in two domains gets two edges
  of weight 1, which sum to 2.
\<close>

theorem belongs_to_sum_counterexample:
  "source_paper_ids idea_two_domains = [uni ''paper_7''] \<and>
   map (\<lambda>(src, did, ed). (src, did, get_weight ed))
     (belongs_to_edges domains_ex papers_ex idea_two_domains) =
     [(uni ''idea_1'', uni ''domain_0'', 1), (uni ''idea_1'', uni ''domain_1'', 1)] \<and>
   sum_list (edge_weights (belongs_to_edges domains_ex papers_ex idea_two_domains)) = 2 \<and>
   \<not> \<bar>sum_list (edge_weights (belongs_to_edges domains_ex papers_ex idea_two_domains)) - 1\<bar>
       \<le> 1 / 10 ^ 9"
  by (simp add: belongs_to_edges_def idea_domain_counts_def count_paper_domains_def
      domain_name_to_id_def index_by_def domains_ex_def papers_ex_def paper_two_domains_def
      paper_one_domain_def paper_nlp_def idea_two_domains_def get_weight_def edge_weights_def
      uni_def)

subsection \<open>RefinementEngine: the exclusion set\<close>

lemma tail_candidates_unused:
  assumes "(pid, pinfo, cs) \<in> set (tail_candidates rp used)"
  shows "pid \<notin> used"
  using assms by (auto simp: tail_candidates_def Let_def split: if_splits)

lemma tail_select_unused:
  assumes "tail_select rp used = Some (pid, pinfo, cs)"
  shows "pid \<notin> used"
proof -
  from assms obtain rest where
    "sort_key (\<lambda>(pid, pinfo, cs). cs) (tail_candidates rp used) = (pid, pinfo, cs) # rest"
    by (auto simp: tail_select_def split: list.splits)
  then have "(pid, pinfo, cs) \<in> set (sort_key (\<lambda>(pid, pinfo, cs). cs) (tail_candidates rp used))"
    by simp
  then show ?thesis using tail_candidates_unused by simp
qed

lemma head_candidates_unused:
  assumes "(pid, pinfo, cs) \<in> set (head_candidates rp used)"
  shows "pid \<notin> used"
  using assms by (auto simp: head_candidates_def Let_def split: if_splits)

lemma head_select_unused:
  assumes "head_select rp used = Some (pid, pinfo, cs)"
  shows "pid \<notin> used"
proof -
  from assms have "(pid, pinfo, cs) \<in> set (head_candidates rp used)"
    by (auto simp: head_select_def split: list.splits)
  then show ?thesis by (rule head_candidates_unused)
qed

lemma chosen_pattern_Some:
  assumes "chosen_pattern rp issue used = Some p"
  shows "p \<notin> used \<and> snd (refine lw rp issue used) = insert p used"
proof (cases "issue = ''novelty''")
  case True
  with assms obtain pinfo cs where s: "tail_select rp used = Some (p, pinfo, cs)"
    by (auto simp: chosen_pattern_def)
  with True tail_select_unused [OF s] show ?thesis
    by (simp add: refine_def inject_tail_tricks_def)
next
  case False
  with assms have st: "issue = ''stability''"
    by (auto simp: chosen_pattern_def split: if_splits)
  with assms obtain pinfo cs where s: "head_select rp used = Some (p, pinfo, cs)"
    by (auto simp: chosen_pattern_def)
  with st head_select_unused [OF s] show ?thesis
    by (simp add: refine_def inject_head_tricks_def)
qed

lemma chosen_pattern_None:
  assumes "chosen_pattern rp issue used = None"
  shows "snd (refine lw rp issue used) = used"
  using assms
  by (auto simp: chosen_pattern_def refine_def inject_tail_tricks_def inject_head_tricks_def
      split: if_splits)

lemma session_invariant:
  "snd (session lw rp issues used) = used \<union> set (injected_ids (fst (session lw rp issues used))) \<and>
   distinct (injected_ids (fst (session lw rp issues used))) \<and>
   set (injected_ids (fst (session lw rp issues used))) \<inter> used = {}"
proof (induction issues arbitrary: used)
  case Nil
  then show ?case by (simp add: injected_ids_def)
next
  case (Cons issue issues)
  show ?case
  proof (cases "chosen_pattern rp issue used")
    case None
    from chosen_pattern_None [OF None, of lw] Cons.IH [of used] None
    show ?thesis by (simp add: Let_def injected_ids_def)
  next
    case (Some p)
    from chosen_pattern_Some [OF Some, of lw]
    have p: "p \<notin> used" "snd (refine lw rp issue used) = insert p used" by simp_all
    from Cons.IH [of "insert p used"] p Some
    show ?thesis by (auto simp: Let_def injected_ids_def)
  qed
qed

text \<open>
  C4. A pattern chosen for a tail or head injection is not in \<open>used_patterns\<close> when it is
  chosen and is in it afterwards; a call that chooses no pattern leaves the set unchanged.
  In a session that starts with the empty set the chosen pattern ids are pairwise distinct,
  and the final set holds exactly these ids: after N pattern-based injections it has N
  members.
\<close>

theorem used_patterns_never_reselected:
  "(chosen_pattern rp issue used = Some p \<longrightarrow>
      p \<notin> used \<and> snd (refine lw rp issue used) = insert p used) \<and>
   (chosen_pattern rp issue used = None \<longrightarrow> snd (refine lw rp issue used) = used) \<and>
   distinct (injected_ids (fst (session lw rp issues {}))) \<and>
   snd (session lw rp issues {}) = set (injected_ids (fst (session lw rp issues {}))) \<and>
   card (snd (session lw rp issues {})) = length (injected_ids (fst (session lw rp issues {})))"
proof -
  from session_invariant [of lw rp issues "{}"]
  have d: "distinct (injected_ids (fst (session lw rp issues {})))"
    and s: "snd (session lw rp issues {}) = set (injected_ids (fst (session lw rp issues {})))"
    by simp_all
  from d s have "card (snd (session lw rp issues {})) =
      length (injected_ids (fst (session lw rp issues {})))"
    by (simp add: distinct_card)
  with d s chosen_pattern_Some [of rp issue used p lw] chosen_pattern_None [of rp issue used lw]
  show ?thesis by blast
qed

lemma tail_select_three_0:
  "tail_select recalled_three {} = Some (uni ''pattern_2'', pinfo_ex ''Beta'' 5, 5)"
  by (simp add: tail_select_def tail_candidates_def rank_window_def TAIL_INJECTION_RANK_RANGE_def
      recalled_three_def get_cluster_size_def pinfo_ex_def INNOVATIVE_CLUSTER_SIZE_THRESHOLD_def)

lemma head_select_three_1:
  "head_select recalled_three {uni ''pattern_2''} = Some (uni ''pattern_1'', pinfo_ex ''Alpha'' 30, 30)"
  by (simp add: head_select_def head_candidates_def rank_window_def HEAD_INJECTION_RANK_RANGE_def
      recalled_three_def get_cluster_size_def pinfo_ex_def HEAD_INJECTION_CLUSTER_THRESHOLD_def
      uni_def Let_def)

lemma tail_select_three_2:
  "tail_select recalled_three {uni ''pattern_1'', uni ''pattern_2''} =
     Some (uni ''pattern_3'', pinfo_ex ''Gamma'' 20, 20)"
  by (simp add: tail_select_def tail_candidates_def rank_window_def TAIL_INJECTION_RANK_RANGE_def
      recalled_three_def get_cluster_size_def pinfo_ex_def INNOVATIVE_CLUSTER_SIZE_THRESHOLD_def
      uni_def)

lemma tail_select_three_3:
  "tail_select recalled_three {uni ''pattern_3'', uni ''pattern_1'', uni ''pattern_2''} = None"
  by (simp add: tail_select_def tail_candidates_def rank_window_def TAIL_INJECTION_RANK_RANGE_def
      recalled_three_def get_cluster_size_def pinfo_ex_def INNOVATIVE_CLUSTER_SIZE_THRESHOLD_def
      uni_def)

lemma session_three:
  "session ascii_lower recalled_three [''novelty'', ''stability'', ''novelty'', ''novelty''] {} =
     ([Some (uni ''pattern_2''), Some (uni ''pattern_1''), Some (uni ''pattern_3''), None],
      {uni ''pattern_3'', uni ''pattern_1'', uni ''pattern_2''})"
  by (simp add: chosen_pattern_def refine_def inject_tail_tricks_def inject_head_tricks_def
      tail_select_three_0 head_select_three_1 tail_select_three_2 tail_select_three_3 Let_def)

theorem used_patterns_never_reselected_witness:
  "chosen_pattern recalled_three ''novelty'' {} = Some (uni ''pattern_2'') \<and>
   snd (refine ascii_lower recalled_three ''novelty'' {}) = {uni ''pattern_2''} \<and>
   chosen_pattern recalled_three ''interpretability'' {} = None \<and>
   snd (refine ascii_lower recalled_three ''interpretability'' {}) = {} \<and>
   fst (session ascii_lower recalled_three [''novelty'', ''stability'', ''novelty'', ''novelty''] {}) =
     [Some (uni ''pattern_2''), Some (uni ''pattern_1''), Some (uni ''pattern_3''), None] \<and>
   card (snd (session ascii_lower recalled_three
                [''novelty'', ''stability'', ''novelty'', ''novelty''] {})) = 3"
proof -
  have c: "chosen_pattern recalled_three ''novelty'' {} = Some (uni ''pattern_2'')"
    by (simp add: chosen_pattern_def tail_select_three_0)
  have n: "chosen_pattern recalled_three ''interpretability'' {} = None"
    by (simp add: chosen_pattern_def)
  from used_patterns_never_reselected
         [of recalled_three "''novelty''" "{}" "uni ''pattern_2''" ascii_lower
             "[''novelty'', ''stability'', ''novelty'', ''novelty'']"] c
  have a: "snd (refine ascii_lower recalled_three ''novelty'' {}) = {uni ''pattern_2''}"
    and k: "card (snd (session ascii_lower recalled_three
                [''novelty'', ''stability'', ''novelty'', ''novelty''] {})) =
            length (injected_ids (fst (session ascii_lower recalled_three
                [''novelty'', ''stability'', ''novelty'', ''novelty''] {})))"
    by blast+
  from used_patterns_never_reselected
         [of recalled_three "''interpretability''" "{}" "uni ''pattern_2''" ascii_lower "[]"] n
  have b: "snd (refine ascii_lower recalled_three ''interpretability'' {}) = {}"
    by blast
  from k have k3: "card (snd (session ascii_lower recalled_three
                [''novelty'', ''stability'', ''novelty'', ''novelty''] {})) = 3"
    unfolding session_three by (simp add: injected_ids_def)
  from a b c n k3 show ?thesis unfolding session_three by simp
qed

subsection \<open>The orchestrator: the critique budget\<close>

lemma switch_pattern_keeps:
  "review_history (switch_pattern rp n cr st) = review_history st"
  "critic_calls (switch_pattern rp n cr st) = critic_calls st"
  "used_patterns (switch_pattern rp n cr st) = used_patterns st"
  "current_story (switch_pattern rp n cr st) = current_story st"
  "generation_log (switch_pattern rp n cr st) = generation_log st"
  by (simp_all add: switch_pattern_def split: list.splits prod.splits)

lemma plan_refinement_keeps:
  "review_history (fst (plan_refinement lw rp n cr st)) = review_history st"
  "critic_calls (fst (plan_refinement lw rp n cr st)) = critic_calls st"
  "current_story (fst (plan_refinement lw rp n cr st)) = current_story st"
  "generation_log (fst (plan_refinement lw rp n cr st)) = generation_log st"
  by (simp_all add: plan_refinement_def Let_def switch_pattern_keeps)

lemma generated_keeps:
  "review_history (generated st call s) = review_history st"
  "critic_calls (generated st call s) = critic_calls st"
  "current_story (generated st call s) = s"
  "generation_log (generated st call s) = generation_log st @ [call]"
  "cur_pattern_id (generated st call s) = cur_pattern_id st"
  "cur_pattern_info (generated st call s) = cur_pattern_info st"
  "injected_tricks (generated st call s) = injected_tricks st"
  "used_patterns (generated st call s) = used_patterns st"
  by (simp_all add: generated_def)

















lemma select_three:
  "select recalled_three =
     [(Conservative, uni ''pattern_1'', pinfo_ex ''Alpha'' 30),
      (Innovative, uni ''pattern_2'', pinfo_ex ''Beta'' 5),
      (Cross_Domain, uni ''pattern_3'', pinfo_ex ''Gamma'' 20)]"
  by (simp add: select_def select_conservative_def select_innovative_def select_cross_domain_def
      recalled_three_def get_cluster_size_def pinfo_ex_def INNOVATIVE_CLUSTER_SIZE_THRESHOLD_def
      uni_def)

lemma select_one:
  "select recalled_one = [(Conservative, uni ''pattern_1'', pinfo_ex ''Alpha'' 30)]"
  by (simp add: select_def select_conservative_def select_innovative_def select_cross_domain_def
      recalled_one_def get_cluster_size_def pinfo_ex_def INNOVATIVE_CLUSTER_SIZE_THRESHOLD_def
      uni_def)


lemma review_646_facts:
  "pass review_646 = False" "main_issue review_646 = ''novelty''"
  "novelty_score (reviews review_646) = Finite 4"
  by (simp_all add: review_646_def review_def reviewers_def single_review_def
      constant_critic_def Let_def split_beta diagnose_issue_def PASS_SCORE_def
      novelty_score_def py_sum_def div_by_len_def float_eval)


lemma stall_646:
  "stall_detected n review_646 (hs @ [review_646, review_646]) \<longleftrightarrow> 2 \<le> n"
  by (auto simp: stall_detected_def prev_novelty_score_def review_646_facts float_eval)



lemma plan_refinement_proj:
  "used_patterns (fst (plan_refinement lw rp n cr st)) =
     snd (refine lw rp (main_issue cr) (used_patterns st))"
  "cur_pattern_id (fst (plan_refinement lw rp n cr st)) =
     cur_pattern_id (switch_pattern rp n cr st)"
  "cur_pattern_info (fst (plan_refinement lw rp n cr st)) =
     cur_pattern_info (switch_pattern rp n cr st)"
  "injected_tricks (fst (plan_refinement lw rp n cr st)) =
     accumulate_tricks (fst (refine lw rp (main_issue cr) (used_patterns st)))
       (injected_tricks (switch_pattern rp n cr st))"
  by (simp_all add: plan_refinement_def Let_def switch_pattern_keeps)

lemma accumulate_tricks_prefix:
  "take (length old) (accumulate_tricks new old) = old"
  unfolding accumulate_tricks_def
proof (induction new arbitrary: old)
  case Nil
  then show ?case by simp
next
  case (Cons t ts)
  show ?case
  proof (cases "t \<in> set old")
    case True
    with Cons show ?thesis by simp
  next
    case False
    from Cons [of "old @ [t]"]
    have "take (length old) (take (Suc (length old))
             (fold (\<lambda>trick acc. if trick \<in> set acc then acc else acc @ [trick]) ts (old @ [t])))
          = take (length old) (old @ [t])"
      by simp
    then show ?thesis using False by (simp add: min_def)
  qed
qed

lemma accumulate_tricks_nonempty:
  assumes "new \<noteq> []"
  shows "accumulate_tricks new old \<noteq> []"
proof (cases "old = []")
  case False
  with accumulate_tricks_prefix [of old new] show ?thesis by auto
next
  case True
  from assms obtain t ts where n: "new = t # ts" by (cases new) auto
  from accumulate_tricks_prefix [of "[t]" ts]
  have "accumulate_tricks ts [t] \<noteq> []" by auto
  with True n show ?thesis by (simp add: accumulate_tricks_def)
qed

text \<open>
  The call of \<open>generate\<close> in the loop is never a fresh generation: \<open>is_pattern_switch\<close>
  asks for an empty list of injected tricks after the new tricks were appended to it.
\<close>

lemma plan_refinement_call:
  "call_summary (snd (plan_refinement lw rp n cr st)) =
     (False, cur_pattern_id (fst (plan_refinement lw rp n cr st)),
      injected_tricks (fst (plan_refinement lw rp n cr st)))"
  using accumulate_tricks_nonempty
  by (fastforce simp: plan_refinement_def Let_def call_summary_def)

lemma tail_instructions_ex: "tail_instructions (pinfo_ex n c) = [plain_tail_trick n]"
  by (simp add: tail_instructions_def pinfo_ex_def tech_tricks_of_def plain_tail_trick_def)

lemma tail_select_three_p2:
  "tail_select recalled_three {uni ''pattern_2''} = Some (uni ''pattern_3'', pinfo_ex ''Gamma'' 20, 20)"
  by (simp add: tail_select_def tail_candidates_def rank_window_def TAIL_INJECTION_RANK_RANGE_def
      recalled_three_def get_cluster_size_def pinfo_ex_def INNOVATIVE_CLUSTER_SIZE_THRESHOLD_def
      uni_def)

lemma tail_select_three_p3p2:
  "tail_select recalled_three {uni ''pattern_3'', uni ''pattern_2''} =
     Some (uni ''pattern_1'', pinfo_ex ''Alpha'' 30, 30)"
  by (simp add: tail_select_def tail_candidates_def rank_window_def TAIL_INJECTION_RANK_RANGE_def
      recalled_three_def get_cluster_size_def pinfo_ex_def INNOVATIVE_CLUSTER_SIZE_THRESHOLD_def
      uni_def)

lemma all_unused_three_p2:
  "all_unused recalled_three {uni ''pattern_2''} =
     [(uni ''pattern_3'', pinfo_ex ''Gamma'' 20), (uni ''pattern_1'', pinfo_ex ''Alpha'' 30)]"
  by (simp add: all_unused_def recalled_three_def get_cluster_size_def pinfo_ex_def uni_def)

lemma all_unused_three_p3p2:
  "all_unused recalled_three {uni ''pattern_3'', uni ''pattern_2''} =
     [(uni ''pattern_1'', pinfo_ex ''Alpha'' 30)]"
  by (simp add: all_unused_def recalled_three_def get_cluster_size_def pinfo_ex_def uni_def)

lemma tail_select_one_0:
  "tail_select recalled_one {} = Some (uni ''pattern_1'', pinfo_ex ''Alpha'' 30, 30)"
  by (simp add: tail_select_def tail_candidates_def rank_window_def TAIL_INJECTION_RANK_RANGE_def
      recalled_one_def get_cluster_size_def pinfo_ex_def INNOVATIVE_CLUSTER_SIZE_THRESHOLD_def)

lemma tail_select_one_p1: "tail_select recalled_one {uni ''pattern_1''} = None"
  by (simp add: tail_select_def tail_candidates_def rank_window_def TAIL_INJECTION_RANK_RANGE_def
      recalled_one_def get_cluster_size_def pinfo_ex_def INNOVATIVE_CLUSTER_SIZE_THRESHOLD_def)

lemma all_unused_one_p1: "all_unused recalled_one {uni ''pattern_1''} = []"
  by (simp add: all_unused_def recalled_one_def)

lemma first_pattern_three:
  "first_pattern (select recalled_three) = (uni ''pattern_1'', pinfo_ex ''Alpha'' 30)"
  by (simp add: first_pattern_def select_three)

lemma first_pattern_one:
  "first_pattern (select recalled_one) = (uni ''pattern_1'', pinfo_ex ''Alpha'' 30)"
  by (simp add: first_pattern_def select_one)

lemma states_646_Suc:
  "cur_pattern_id (states_646 rp (Suc k)) =
     cur_pattern_id (switch_pattern rp (Suc k) review_646
       ((states_646 rp k)\<lparr>review_history := review_history (states_646 rp k) @ [review_646],
                          critic_calls := critic_calls (states_646 rp k) + 1\<rparr>))"
  "injected_tricks (states_646 rp (Suc k)) =
     accumulate_tricks (fst (inject_tail_tricks rp (used_patterns (states_646 rp k))))
       (injected_tricks (switch_pattern rp (Suc k) review_646
          ((states_646 rp k)\<lparr>review_history := review_history (states_646 rp k) @ [review_646],
                             critic_calls := critic_calls (states_646 rp k) + 1\<rparr>)))"
  "used_patterns (states_646 rp (Suc k)) =
     snd (inject_tail_tricks rp (used_patterns (states_646 rp k)))"
  "review_history (states_646 rp (Suc k)) = review_history (states_646 rp k) @ [review_646]"
  "critic_calls (states_646 rp (Suc k)) = Suc (critic_calls (states_646 rp k))"
  "current_story (states_646 rp (Suc k)) = story_a"
  "map call_summary (generation_log (states_646 rp (Suc k))) =
     map call_summary (generation_log (states_646 rp k)) @
       [(False, cur_pattern_id (states_646 rp (Suc k)), injected_tricks (states_646 rp (Suc k)))]"
  by (simp_all add: states_646.simps Let_def generated_keeps plan_refinement_proj
      plan_refinement_keeps plan_refinement_call review_646_facts refine_def)

lemma states_646_0:
  "cur_pattern_id (states_646 rp 0) = fst (first_pattern (select rp))"
  "injected_tricks (states_646 rp 0) = []"
  "used_patterns (states_646 rp 0) = {}"
  "review_history (states_646 rp 0) = []"
  "critic_calls (states_646 rp 0) = 0"
  "current_story (states_646 rp 0) = story_a"
  "map call_summary (generation_log (states_646 rp 0)) =
     [(True, fst (first_pattern (select rp)), [])]"
  by (simp_all add: states_646.simps initial_state_def call_summary_def)

lemma states_646_history:
  "review_history (states_646 rp k) = replicate k review_646"
  "critic_calls (states_646 rp k) = k"
  "current_story (states_646 rp k) = story_a"
proof -
  show "review_history (states_646 rp k) = replicate k review_646"
    by (induction k) (simp_all add: states_646_0 states_646_Suc replicate_append_same)
  show "critic_calls (states_646 rp k) = k"
    by (induction k) (simp_all add: states_646_0 states_646_Suc)
  show "current_story (states_646 rp k) = story_a"
    by (cases k) (simp_all add: states_646_0 states_646_Suc)
qed

lemma state_three_1:
  "cur_pattern_id (states_646 recalled_three (Suc 0)) = uni ''pattern_1''"
  "injected_tricks (states_646 recalled_three (Suc 0)) = [plain_tail_trick ''Beta'']"
  "used_patterns (states_646 recalled_three (Suc 0)) = {uni ''pattern_2''}"
  "map call_summary (generation_log (states_646 recalled_three (Suc 0))) =
     [(True, uni ''pattern_1'', []), (False, uni ''pattern_1'', [plain_tail_trick ''Beta''])]"
  by (simp_all add: states_646_Suc states_646_0 first_pattern_three switch_pattern_def
      stall_detected_def inject_tail_tricks_def tail_select_three_0 tail_instructions_ex
      accumulate_tricks_def)

lemma state_three_2:
  "cur_pattern_id (states_646 recalled_three (Suc (Suc 0))) = uni ''pattern_3''"
  "injected_tricks (states_646 recalled_three (Suc (Suc 0))) = [plain_tail_trick ''Gamma'']"
  "used_patterns (states_646 recalled_three (Suc (Suc 0))) = {uni ''pattern_3'', uni ''pattern_2''}"
  "map call_summary (generation_log (states_646 recalled_three (Suc (Suc 0)))) =
     [(True, uni ''pattern_1'', []), (False, uni ''pattern_1'', [plain_tail_trick ''Beta'']),
      (False, uni ''pattern_3'', [plain_tail_trick ''Gamma''])]"
  unfolding states_646_Suc [of _ "Suc 0"]
  by (simp_all add: state_three_1 states_646_history switch_pattern_def
      stall_646 [of _ "[]", simplified] inject_tail_tricks_def all_unused_three_p2
      tail_select_three_p2 tail_instructions_ex accumulate_tricks_def)

lemma state_three_3:
  "cur_pattern_id (states_646 recalled_three (Suc (Suc (Suc 0)))) = uni ''pattern_1''"
  "injected_tricks (states_646 recalled_three (Suc (Suc (Suc 0)))) = [plain_tail_trick ''Alpha'']"
  "map call_summary (generation_log (states_646 recalled_three (Suc (Suc (Suc 0))))) =
     [(True, uni ''pattern_1'', []), (False, uni ''pattern_1'', [plain_tail_trick ''Beta'']),
      (False, uni ''pattern_3'', [plain_tail_trick ''Gamma'']),
      (False, uni ''pattern_1'', [plain_tail_trick ''Alpha''])]"
  unfolding states_646_Suc [of _ "Suc (Suc 0)"]
  by (simp_all add: state_three_2 states_646_history switch_pattern_def
      stall_646 [of _ "[review_646]", simplified] inject_tail_tricks_def all_unused_three_p3p2
      tail_select_three_p3p2 tail_instructions_ex accumulate_tricks_def)




lemma recalled_one_nonempty: "recalled_one \<noteq> []"
  by (simp add: recalled_one_def)











end
